theory Spec2Isabelle
  imports Main "HOL-Library.Word"
begin

section \<open>C strings and the text written to standard error\<close>

text \<open>
  A character buffer is the list of its bytes. The string held by a buffer is what comes
  before its first NUL byte. \<open>memset(buf, 0, n)\<close>, \<open>strlen\<close>, \<open>strcat\<close> and
  \<open>strncat\<close> of the C library, on such buffers; a source argument is the memory the
  pointer designates, read up to its NUL.
\<close>

definition NUL :: char where
  "NUL = CHR 0x00"

definition c_string :: "char list \<Rightarrow> string" where
  "c_string buf = takeWhile (\<lambda>c. c \<noteq> NUL) buf"

definition c_strlen :: "char list \<Rightarrow> nat" where
  "c_strlen buf = length (c_string buf)"

definition memset_zero :: "nat \<Rightarrow> char list" where
  "memset_zero n = replicate n NUL"

definition c_strncat :: "char list \<Rightarrow> char list \<Rightarrow> nat \<Rightarrow> char list" where
  "c_strncat dst src n =
     (let k = c_strlen dst; s = take n (c_string src) @ [NUL]
      in take k dst @ s @ drop (k + length s) dst)"

definition c_strcat :: "char list \<Rightarrow> char list \<Rightarrow> char list" where
  "c_strcat dst src = c_strncat dst src (length src)"

text \<open>
  Lines 305 to 310 of \<open>init_component_handle\<close>: the 32 byte buffer \<open>fullname\<close> is zeroed,
  the prefix is appended, and \<open>strncat\<close> appends at most \<open>strlen(fullname) - 1\<close> characters
  of \<open>name\<close>.
\<close>

definition component_fullname_buf :: "char list \<Rightarrow> char list" where
  "component_fullname_buf name =
     (let fullname = memset_zero 32;
          fullname = c_strcat fullname ''OMX.broadcom.''
      in c_strncat fullname name (c_strlen fullname - 1))"

definition component_fullname :: "char list \<Rightarrow> string" where
  "component_fullname name = c_string (component_fullname_buf name)"

text \<open>
  \<open>printf\<close> conversions used in the fatal messages: \<open>%d\<close> of a 32 bit value (read as a
  signed int) and \<open>0x%08x\<close>.
\<close>

definition digit_char :: "nat \<Rightarrow> char" where
  "digit_char d = (''0123456789abcdef'') ! (d mod 16)"

fun dec_digits :: "nat \<Rightarrow> nat \<Rightarrow> string" where
  "dec_digits 0 n = []"
| "dec_digits (Suc k) n =
     (if n < 10 then [digit_char n] else dec_digits k (n div 10) @ [digit_char (n mod 10)])"

definition fmt_d :: "32 word \<Rightarrow> string" where
  "fmt_d v = (if sint v < 0 then CHR ''-'' # dec_digits 10 (nat (- sint v))
              else dec_digits 10 (nat (sint v)))"

definition fmt_08x :: "32 word \<Rightarrow> string" where
  "fmt_08x v = map (\<lambda>i. digit_char (unat (drop_bit (4 * i) v) mod 16)) [7, 6, 5, 4, 3, 2, 1, 0]"

text \<open>
  \<open>say\<close> formats into a zeroed 1024 byte buffer with \<open>vsnprintf(str, sizeof(str) - 1, ...)\<close>,
  so at most 1022 characters are kept, and stores a newline after the text unless the
  text already ends with one. \<open>say_text\<close> is the text that reaches \<open>fprintf\<close>, given the
  formatted message. The source reads \<open>str[-1]\<close> when the message is empty; the model
  then adds the newline. The buffer is handed to \<open>fprintf\<close> as its format: the messages of
  this program hold no percent sign once formatted, and the model passes them unchanged.
\<close>

definition say_text :: "string \<Rightarrow> string" where
  "say_text msg =
     (let str = take 1022 (c_string msg)
      in if str \<noteq> [] \<and> last str = CHR 0x0A then str else str @ [CHR 0x0A])"

text \<open>\<open>die\<close> formats into 1024 bytes (1023 characters kept) and calls \<open>say(str)\<close>.\<close>

definition die_text :: "string \<Rightarrow> string" where
  "die_text msg = say_text (take 1023 (c_string msg))"

section \<open>Values of the OpenMAX IL interface\<close>

text \<open>
  The program is built for the 32 bit Raspberry Pi userland: \<open>OMX_U32\<close>, \<open>OMX_S32\<close>,
  pointers and handles are 32 bit words; a signed one (\<open>s32\<close>) is read with \<open>sint\<close>.
  \<open>OMX_BOOL\<close> is \<open>bool\<close>. The enumerations the
  program switches on are datatypes; \<open>OMX_ERRORTYPE\<close>, which the program prints in
  hexadecimal and receives as the \<open>nData1\<close> word of an error event, is the 32 bit code,
  with the values of the Khronos header \<open>IL/OMX_Core.h\<close> for the seven codes \<open>omx_die\<close>
  names.
\<close>

type_synonym u32 = "32 word"
type_synonym s32 = "32 word"
type_synonym OMX_HANDLETYPE = u32
type_synonym OMX_ERRORTYPE = u32

definition OMX_ErrorNone :: OMX_ERRORTYPE where
  "OMX_ErrorNone = 0"
definition OMX_ErrorInsufficientResources :: OMX_ERRORTYPE where
  "OMX_ErrorInsufficientResources = 0x80001000"
definition OMX_ErrorBadParameter :: OMX_ERRORTYPE where
  "OMX_ErrorBadParameter = 0x80001005"
definition OMX_ErrorHardware :: OMX_ERRORTYPE where
  "OMX_ErrorHardware = 0x80001009"
definition OMX_ErrorIncorrectStateTransition :: OMX_ERRORTYPE where
  "OMX_ErrorIncorrectStateTransition = 0x80001017"
definition OMX_ErrorIncorrectStateOperation :: OMX_ERRORTYPE where
  "OMX_ErrorIncorrectStateOperation = 0x80001018"
definition OMX_ErrorBadPortIndex :: OMX_ERRORTYPE where
  "OMX_ErrorBadPortIndex = 0x8000101B"

text \<open>\<open>OMX_CommandFlush\<close> as the \<open>nData1\<close> word of a command-complete event.\<close>

definition OMX_CommandFlush_code :: u32 where
  "OMX_CommandFlush_code = 1"

text \<open>The two colour formats \<open>dump_color_format\<close> names, as words of the format union.\<close>

definition OMX_COLOR_FormatUnused :: u32 where
  "OMX_COLOR_FormatUnused = 0"
definition OMX_COLOR_FormatYUV420PackedPlanar :: u32 where
  "OMX_COLOR_FormatYUV420PackedPlanar = 20"

definition OMX_ALL :: u32 where
  "OMX_ALL = 0xFFFFFFFF"

datatype OMX_STATETYPE =
    OMX_StateInvalid | OMX_StateLoaded | OMX_StateIdle | OMX_StateExecuting
  | OMX_StatePause | OMX_StateWaitForResources

datatype OMX_EVENTTYPE =
    OMX_EventCmdComplete | OMX_EventError | OMX_EventParamOrConfigChanged
  | OMX_EventPortSettingsChanged | OMX_EventOther u32

datatype OMX_DIRTYPE = OMX_DirInput | OMX_DirOutput

datatype OMX_PORTDOMAINTYPE =
    OMX_PortDomainAudio | OMX_PortDomainVideo | OMX_PortDomainImage | OMX_PortDomainOther

datatype OMX_MIRRORTYPE =
    OMX_MirrorNone | OMX_MirrorVertical | OMX_MirrorHorizontal | OMX_MirrorBoth

text \<open>
  \<open>OMX_PARAM_PORTDEFINITIONTYPE\<close>. Its \<open>format\<close> member is a union; the program writes
  the video view and reads the first members of the image view. Both views begin with the
  same six members (\<open>cMIMEType\<close>, \<open>pNativeRender\<close>, \<open>nFrameWidth\<close>, \<open>nFrameHeight\<close>,
  \<open>nStride\<close>, \<open>nSliceHeight\<close>), which therefore share their storage; the record holds the
  twelve words of the union under the names of the video view, and the image view reads
  the words at its own offsets.
\<close>

record OMX_VIDEO_PORTDEFINITIONTYPE =
  cMIMEType :: u32
  pNativeRender :: u32
  nFrameWidth :: u32
  nFrameHeight :: u32
  nStride :: s32
  nSliceHeight :: u32
  nBitrate :: u32
  xFramerate :: u32
  bFlagErrorConcealment :: u32
  eCompressionFormat :: u32
  eColorFormat :: u32
  pNativeWindow :: u32

definition image_nFrameWidth :: "OMX_VIDEO_PORTDEFINITIONTYPE \<Rightarrow> u32" where
  "image_nFrameWidth f = nFrameWidth f"

text \<open>\<open>format.image.eColorFormat\<close> is the ninth word of the union.\<close>

definition image_eColorFormat :: "OMX_VIDEO_PORTDEFINITIONTYPE \<Rightarrow> u32" where
  "image_eColorFormat f = bFlagErrorConcealment f"

record OMX_PARAM_PORTDEFINITIONTYPE =
  nSize :: u32
  nVersion :: u32
  nPortIndex :: u32
  eDir :: OMX_DIRTYPE
  nBufferCountActual :: u32
  nBufferCountMin :: u32
  nBufferSize :: u32
  bEnabled :: bool
  bPopulated :: bool
  eDomain :: OMX_PORTDOMAINTYPE
  format :: OMX_VIDEO_PORTDEFINITIONTYPE
  bBuffersContiguous :: bool
  nBufferAlignment :: u32

record OMX_PORT_PARAM_TYPE =
  nPorts :: u32
  nStartPortNumber :: u32

text \<open>
  \<open>OMX_CALLBACKTYPE\<close>: three function pointers. \<open>event_handler\<close> is the address of the
  program's handler, whatever it is; the model only needs it to be a fixed word.
\<close>

record OMX_CALLBACKTYPE =
  EventHandler :: u32
  EmptyBufferDone :: u32
  FillBufferDone :: u32

datatype OMX_INDEXTYPE =
    OMX_IndexParamAudioInit | OMX_IndexParamVideoInit
  | OMX_IndexParamImageInit | OMX_IndexParamOtherInit

text \<open>\<open>OMX_SendCommand\<close>: the command with its \<open>nParam\<close> (a state or a port index).\<close>

datatype OMX_COMMANDTYPE =
    OMX_CommandStateSet OMX_STATETYPE
  | OMX_CommandFlush u32
  | OMX_CommandPortDisable u32
  | OMX_CommandPortEnable u32

datatype OMX_WHITEBALCONTROLTYPE = OMX_WhiteBalControlOff | OMX_WhiteBalControlAuto

datatype OMX_IMAGEFILTERTYPE = OMX_ImageFilterNone | OMX_ImageFilterNoise

datatype OMX_DISPLAYSETTYPE =
    OMX_DISPLAY_SET_NUM | OMX_DISPLAY_SET_FULLSCREEN | OMX_DISPLAY_SET_MODE
  | OMX_DISPLAY_SET_DEST_RECT

datatype OMX_DISPLAYMODETYPE = OMX_DISPLAY_MODE_FILL | OMX_DISPLAY_MODE_LETTERBOX

text \<open>
  \<open>OMX_CONFIG_DISPLAYREGIONTYPE\<close>, the members the program assigns; \<open>set\<close> is the list of
  the flags or-ed together, and the members of \<open>dest_rect\<close> are 16 bit signed
  (\<open>OMX_S16\<close>, read with \<open>sint\<close>).
\<close>

record OMX_CONFIG_DISPLAYREGIONTYPE =
  region_nPortIndex :: u32
  region_set :: "OMX_DISPLAYSETTYPE list"
  region_num :: u32
  region_fullscreen :: bool
  region_mode :: OMX_DISPLAYMODETYPE
  dest_rect_x_offset :: "16 word"
  dest_rect_y_offset :: "16 word"
  dest_rect_width :: "16 word"
  dest_rect_height :: "16 word"

text \<open>
  The structures handed to \<open>OMX_SetParameter\<close> and \<open>OMX_SetConfig\<close>, by the index they
  are set under, each with the members the program assigns after \<open>OMX_INIT_STRUCTURE\<close>
  (the size and version words and the members left zero are the same in every call and
  are left out). The first argument is \<open>nPortIndex\<close>, except for the port definition,
  which carries it.
\<close>

datatype setting =
    IndexConfigRequestCallback u32 bool
  | IndexParamCameraDeviceNumber u32 u32
  | IndexParamPortDefinition OMX_PARAM_PORTDEFINITIONTYPE
  | IndexConfigVideoFramerate u32 u32
  | IndexConfigCommonSharpness u32 s32
  | IndexConfigCommonContrast u32 s32
  | IndexConfigCommonSaturation u32 s32
  | IndexConfigCommonBrightness u32 u32
  | IndexConfigCommonExposureValue u32 s32 bool u32
  | IndexConfigCommonFrameStabilisation u32 bool
  | IndexConfigCommonWhiteBalance u32 OMX_WHITEBALCONTROLTYPE
  | IndexConfigCommonImageFilter u32 OMX_IMAGEFILTERTYPE
  | IndexConfigCommonMirror u32 OMX_MIRRORTYPE
  | IndexConfigDisplayRegion OMX_CONFIG_DISPLAYREGIONTYPE
  | IndexConfigPortCapturing u32 bool

datatype signal_number = SIGINT | SIGTERM | SIGQUIT
datatype disposition = SIG_DFL | Handler

text \<open>Every call whose only result is a status word (for \<open>calloc\<close>, the pointer).\<close>

datatype call =
    bcm_host_init
  | OMX_Init
  | OMX_Deinit
  | vcos_semaphore_create
  | vcos_semaphore_wait
  | vcos_semaphore_post
  | vcos_semaphore_delete
  | usleep nat
  | calloc nat nat
  | signal signal_number disposition
  | OMX_SetParameter OMX_HANDLETYPE setting
  | OMX_SetConfig OMX_HANDLETYPE setting
  | OMX_SendCommand OMX_HANDLETYPE OMX_COMMANDTYPE
  | OMX_SetupTunnel OMX_HANDLETYPE u32 OMX_HANDLETYPE u32
  | OMX_FreeBuffer OMX_HANDLETYPE u32 u32
  | OMX_FreeHandle OMX_HANDLETYPE

text \<open>
  What the environment does to the program on its own: the runtime invokes the event
  callback (\<open>hComponent\<close>, \<open>eEvent\<close>, \<open>nData1\<close>, \<open>nData2\<close>), or a signal arrives.
\<close>

datatype async =
    Event OMX_HANDLETYPE OMX_EVENTTYPE u32 u32
  | Signal signal_number

text \<open>
  The environment (the OpenMAX IL runtime of the device, the operating system and the
  scheduler) is a parameter of the model: a state of any type \<open>'r\<close> and one function per
  kind of call, giving the result, the callbacks and signals delivered before the call
  returns, and the next state. A call with an out parameter gives the value the out
  parameter holds after the call. Of the port definition structure passed to
  \<open>OMX_GetParameter\<close> the runtime reads the port index. \<open>OMX_IndexParamCameraDeviceNumber\<close>
  is a constant of the Broadcom header \<open>IL/OMX_Index.h\<close>, as the word that arrives in
  \<open>nData2\<close>.
\<close>

record 'r runtime =
  rt_call :: "call \<Rightarrow> 'r \<Rightarrow> u32 \<times> async list \<times> 'r"
  rt_get_handle :: "string \<Rightarrow> OMX_CALLBACKTYPE \<Rightarrow> 'r \<Rightarrow> (OMX_ERRORTYPE \<times> OMX_HANDLETYPE) \<times> async list \<times> 'r"
  rt_get_ports :: "OMX_HANDLETYPE \<Rightarrow> OMX_INDEXTYPE \<Rightarrow> 'r \<Rightarrow> (OMX_ERRORTYPE \<times> OMX_PORT_PARAM_TYPE) \<times> async list \<times> 'r"
  rt_get_portdef :: "OMX_HANDLETYPE \<Rightarrow> u32 \<Rightarrow> 'r \<Rightarrow> (OMX_ERRORTYPE \<times> OMX_PARAM_PORTDEFINITIONTYPE) \<times> async list \<times> 'r"
  rt_get_state :: "OMX_HANDLETYPE \<Rightarrow> 'r \<Rightarrow> (OMX_ERRORTYPE \<times> OMX_STATETYPE) \<times> async list \<times> 'r"
  rt_allocate_buffer :: "OMX_HANDLETYPE \<Rightarrow> u32 \<Rightarrow> u32 \<Rightarrow> 'r \<Rightarrow> (OMX_ERRORTYPE \<times> u32) \<times> async list \<times> 'r"
  rt_display_size :: "u32 \<Rightarrow> 'r \<Rightarrow> (int \<times> u32 \<times> u32) \<times> async list \<times> 'r"
  OMX_IndexParamCameraDeviceNumber :: u32

text \<open>The log of the interaction: each call with its result, each callback and signal.\<close>

datatype entry =
    Call call u32
  | GetHandle string OMX_CALLBACKTYPE "OMX_ERRORTYPE \<times> OMX_HANDLETYPE"
  | GetPorts OMX_HANDLETYPE OMX_INDEXTYPE "OMX_ERRORTYPE \<times> OMX_PORT_PARAM_TYPE"
  | GetPortDef OMX_HANDLETYPE u32 "OMX_ERRORTYPE \<times> OMX_PARAM_PORTDEFINITIONTYPE"
  | GetState OMX_HANDLETYPE "OMX_ERRORTYPE \<times> OMX_STATETYPE"
  | AllocateBuffer OMX_HANDLETYPE u32 u32 "OMX_ERRORTYPE \<times> u32"
  | DisplaySize u32 "int \<times> u32 \<times> u32"
  | Async async

text \<open>
  Standard error: the text of each \<open>say\<close>. The two dump routines format enumeration
  values and a float; for them the log keeps the values dumped, not their text.
\<close>

datatype out =
    Text string
  | EventDump OMX_HANDLETYPE OMX_EVENTTYPE u32 u32
  | PortDump OMX_PARAM_PORTDEFINITIONTYPE
  | FormatDump OMX_PORTDOMAINTYPE OMX_VIDEO_PORTDEFINITIONTYPE

section \<open>The program state\<close>

record appctx =
  camera :: OMX_HANDLETYPE
  camera_ppBuffer_in :: u32
  camera_ready :: int
  render :: OMX_HANDLETYPE
  null_sink :: OMX_HANDLETYPE
  flushed :: int

text \<open>
  What the C implementation leaves open: the content of the automatic objects that the
  program reads before writing them (\<open>callbacks\<close> in \<open>main\<close>, \<open>quit\<close> in each activation of
  \<open>block_until_flushed\<close>, numbered in the order of the calls in \<open>main\<close>), and the address of
  \<open>event_handler\<close>.
\<close>

record indeterminate =
  callbacks_garbage :: OMX_CALLBACKTYPE
  quit_garbage :: "nat \<Rightarrow> int"
  event_handler_addr :: u32

text \<open>
  The state: the environment, the global \<open>want_quit\<close>, the signals whose disposition is
  \<open>signal_handler\<close>, the locals of \<open>main\<close> that carry values from one statement to a later
  one, and the two logs.
\<close>

record 'r world =
  rts :: 'r
  want_quit :: int
  handled :: "signal_number list"
  ctx :: appctx
  callbacks :: OMX_CALLBACKTYPE
  screen_width :: u32
  screen_height :: u32
  camera_portdef :: OMX_PARAM_PORTDEFINITIONTYPE
  trace :: "entry list"
  err_out :: "out list"

text \<open>
  How a run stands: still running, or stopped by \<open>exit\<close> (or the return of \<open>main\<close>) with a
  status, by a signal with the default disposition, or by a polling loop that used up the
  iterations it was given.
\<close>

datatype status = Exit int | Killed signal_number | Hang

datatype 'r res = Running "'r world" | Stop status "'r world"

type_synonym 'r step = "'r world \<Rightarrow> 'r res"

definition seq :: "'r step \<Rightarrow> 'r step \<Rightarrow> 'r step" where
  "seq a b w = (case a w of Running w' \<Rightarrow> b w' | Stop st w' \<Rightarrow> Stop st w')"

fun run_steps :: "'r step list \<Rightarrow> 'r step" where
  "run_steps [] w = Running w"
| "run_steps (a # as) w = (case a w of Running w' \<Rightarrow> run_steps as w' | Stop st w' \<Rightarrow> Stop st w')"

definition assign :: "('r world \<Rightarrow> 'r world) \<Rightarrow> 'r step" where
  "assign f w = Running (f w)"

section \<open>Utility functions of the program\<close>

definition say_w :: "string \<Rightarrow> 'r world \<Rightarrow> 'r world" where
  "say_w msg w = w\<lparr>err_out := err_out w @ [Text (say_text msg)]\<rparr>"

definition say :: "string \<Rightarrow> 'r step" where
  "say msg = assign (say_w msg)"

definition die :: "string \<Rightarrow> 'r step" where
  "die msg w = Stop (Exit 1) (say_w (take 1023 (c_string msg)) w)"

definition error_description :: "OMX_ERRORTYPE \<Rightarrow> string" where
  "error_description error =
     (if error = OMX_ErrorNone then ''no error''
      else if error = OMX_ErrorBadParameter then ''bad parameter''
      else if error = OMX_ErrorIncorrectStateOperation
        then ''invalid state while trying to perform command''
      else if error = OMX_ErrorIncorrectStateTransition then ''unallowed state transition''
      else if error = OMX_ErrorInsufficientResources then ''insufficient resource''
      else if error = OMX_ErrorBadPortIndex then ''bad port index, i.e. incorrect port''
      else if error = OMX_ErrorHardware then ''hardware error''
      else ''(no description)'')"

definition omx_die :: "OMX_ERRORTYPE \<Rightarrow> string \<Rightarrow> 'r step" where
  "omx_die error msg =
     (let str = take 1023 (c_string msg); e = error_description error
      in die (''OMX error: '' @ str @ '': 0x'' @ fmt_08x error @ '' '' @ e))"

definition dump_event :: "OMX_HANDLETYPE \<Rightarrow> OMX_EVENTTYPE \<Rightarrow> u32 \<Rightarrow> u32 \<Rightarrow> 'r world \<Rightarrow> 'r world" where
  "dump_event hComponent eEvent nData1 nData2 w =
     w\<lparr>err_out := err_out w @ [EventDump hComponent eEvent nData1 nData2]\<rparr>"

section \<open>Callbacks and signals\<close>

text \<open>
  \<open>event_handler\<close>, lines 348 to 383. It runs on a thread of the runtime; its two critical
  sections are guarded by \<open>handler_lock\<close>, so each runs as one step of the model.
\<close>

definition event_handler ::
  "'r runtime \<Rightarrow> OMX_HANDLETYPE \<Rightarrow> OMX_EVENTTYPE \<Rightarrow> u32 \<Rightarrow> u32 \<Rightarrow> 'r step" where
  "event_handler rt hComponent eEvent nData1 nData2 w =
     (let w = dump_event hComponent eEvent nData1 nData2 w
      in case eEvent of
           OMX_EventCmdComplete \<Rightarrow>
             Running (if nData1 = OMX_CommandFlush_code then w\<lparr>ctx := (ctx w)\<lparr>flushed := 1\<rparr>\<rparr> else w)
         | OMX_EventParamOrConfigChanged \<Rightarrow>
             Running (if nData2 = OMX_IndexParamCameraDeviceNumber rt
                      then w\<lparr>ctx := (ctx w)\<lparr>camera_ready := 1\<rparr>\<rparr> else w)
         | OMX_EventError \<Rightarrow> omx_die nData1 ''error event received'' w
         | _ \<Rightarrow> Running w)"

text \<open>
  \<open>signal_handler\<close>, line 343, when it is installed for the signal; the default
  disposition of the three signals ends the process.
\<close>

definition signal_handler :: "signal_number \<Rightarrow> 'r step" where
  "signal_handler sig w =
     (if sig \<in> set (handled w) then Running (w\<lparr>want_quit := 1\<rparr>) else Stop (Killed sig) w)"

definition deliver1 :: "'r runtime \<Rightarrow> async \<Rightarrow> 'r step" where
  "deliver1 rt a w =
     (let w = w\<lparr>trace := trace w @ [Async a]\<rparr>
      in case a of
           Event hComponent eEvent nData1 nData2 \<Rightarrow> event_handler rt hComponent eEvent nData1 nData2 w
         | Signal sig \<Rightarrow> signal_handler sig w)"

definition deliver :: "'r runtime \<Rightarrow> async list \<Rightarrow> 'r step" where
  "deliver rt evs = run_steps (map (deliver1 rt) evs)"

text \<open>
  One call of the environment: the call and its result are logged, what was delivered
  meanwhile is handled, and the program goes on with the result.
\<close>

definition perform ::
  "'r runtime \<Rightarrow> ('r \<Rightarrow> 'a \<times> async list \<times> 'r) \<Rightarrow> ('a \<Rightarrow> entry) \<Rightarrow> ('a \<Rightarrow> 'r step) \<Rightarrow> 'r step" where
  "perform rt act log k w =
     (case act (rts w) of
        (a, evs, s) \<Rightarrow> seq (deliver rt evs) (k a) (w\<lparr>rts := s, trace := trace w @ [log a]\<rparr>))"

definition do_call :: "'r runtime \<Rightarrow> call \<Rightarrow> (u32 \<Rightarrow> 'r step) \<Rightarrow> 'r step" where
  "do_call rt c k = perform rt (rt_call rt c) (Call c) k"

text \<open>A call whose result the program ignores.\<close>

definition call_ignored :: "'r runtime \<Rightarrow> call \<Rightarrow> 'r step" where
  "call_ignored rt c = do_call rt c (\<lambda>r. Running)"

text \<open>The idiom \<open>if((r = OMX_...(...)) != OMX_ErrorNone) omx_die(r, "...")\<close>.\<close>

definition omx_or_die :: "'r runtime \<Rightarrow> call \<Rightarrow> string \<Rightarrow> 'r step" where
  "omx_or_die rt c msg = do_call rt c (\<lambda>r. if r \<noteq> OMX_ErrorNone then omx_die r msg else Running)"

section \<open>Dumps\<close>

text \<open>
  \<open>dump_color_format\<close> allocates the text of a format it does not know and dies when
  \<open>calloc\<close> fails; \<open>dump_portdef\<close> calls it for the video and the image domain before the
  second \<open>say\<close>.
\<close>

definition dump_color_format :: "'r runtime \<Rightarrow> u32 \<Rightarrow> 'r step" where
  "dump_color_format rt c =
     (if c = OMX_COLOR_FormatUnused then Running
      else if c = OMX_COLOR_FormatYUV420PackedPlanar then Running
      else do_call rt (calloc 23 1)
             (\<lambda>f. if f = 0 then die ''Failed to allocate memory'' else Running))"

definition put_out :: "out \<Rightarrow> 'r step" where
  "put_out x = assign (\<lambda>w. w\<lparr>err_out := err_out w @ [x]\<rparr>)"

definition dump_portdef :: "'r runtime \<Rightarrow> OMX_PARAM_PORTDEFINITIONTYPE \<Rightarrow> 'r step" where
  "dump_portdef rt portdef =
     seq (put_out (PortDump portdef))
       (case eDomain portdef of
          OMX_PortDomainVideo \<Rightarrow>
            seq (dump_color_format rt (eColorFormat (format portdef)))
                (put_out (FormatDump OMX_PortDomainVideo (format portdef)))
        | OMX_PortDomainImage \<Rightarrow>
            seq (dump_color_format rt (image_eColorFormat (format portdef)))
                (put_out (FormatDump OMX_PortDomainImage (format portdef)))
        | _ \<Rightarrow> Running)"

definition dump_port :: "'r runtime \<Rightarrow> OMX_HANDLETYPE \<Rightarrow> u32 \<Rightarrow> 'r step" where
  "dump_port rt hComponent nPortIdx =
     perform rt (rt_get_portdef rt hComponent nPortIdx) (GetPortDef hComponent nPortIdx)
       (\<lambda>(r, portdef).
          if r \<noteq> OMX_ErrorNone
          then omx_die r (''Failed to get port definition for port '' @ fmt_d nPortIdx)
          else dump_portdef rt portdef)"

section \<open>The polling loops\<close>

text \<open>
  Each loop polls and sleeps 10 ms until it sees what it waits for, with no bound of its
  own. The first argument after the runtime is the number of iterations the loop is given;
  a loop that uses them up stops the run with \<open>Hang\<close>.
\<close>

fun block_until_state_changed ::
  "'r runtime \<Rightarrow> nat \<Rightarrow> OMX_HANDLETYPE \<Rightarrow> OMX_STATETYPE \<Rightarrow> 'r step" where
  "block_until_state_changed rt 0 hComponent wanted_eState w = Stop Hang w"
| "block_until_state_changed rt (Suc n) hComponent wanted_eState w =
     perform rt (rt_get_state rt hComponent) (GetState hComponent)
       (\<lambda>(r, eState).
          if eState \<noteq> wanted_eState
          then seq (call_ignored rt (usleep 10000))
                   (\<lambda>w'. block_until_state_changed rt n hComponent wanted_eState w')
          else Running) w"

fun block_until_port_changed ::
  "'r runtime \<Rightarrow> nat \<Rightarrow> OMX_HANDLETYPE \<Rightarrow> u32 \<Rightarrow> bool \<Rightarrow> 'r step" where
  "block_until_port_changed rt 0 hComponent nPortIdx enabled w = Stop Hang w"
| "block_until_port_changed rt (Suc n) hComponent nPortIdx enabled w =
     perform rt (rt_get_portdef rt hComponent nPortIdx) (GetPortDef hComponent nPortIdx)
       (\<lambda>(r, portdef).
          if r \<noteq> OMX_ErrorNone then omx_die r ''Failed to get port definition''
          else if bEnabled portdef \<noteq> enabled
          then seq (call_ignored rt (usleep 10000))
                   (\<lambda>w'. block_until_port_changed rt n hComponent nPortIdx enabled w')
          else Running) w"

text \<open>
  \<open>block_until_flushed\<close>, lines 284 to 297. \<open>quit\<close> is declared without an initial value
  and read by the loop condition first: the value it starts with is the argument \<open>quit\<close>.
  Between \<open>vcos_semaphore_wait\<close> and \<open>vcos_semaphore_post\<close> the handler cannot run, so the
  test and the reset of \<open>flushed\<close> are one step.
\<close>

fun block_until_flushed :: "'r runtime \<Rightarrow> nat \<Rightarrow> int \<Rightarrow> 'r step" where
  "block_until_flushed rt 0 quit w = (if quit = 0 then Stop Hang w else Running w)"
| "block_until_flushed rt (Suc n) quit w =
     (if quit = 0
      then do_call rt vcos_semaphore_wait
             (\<lambda>_ w1.
                let was_flushed = (flushed (ctx w1) \<noteq> 0);
                    w2 = (if was_flushed then w1\<lparr>ctx := (ctx w1)\<lparr>flushed := 0\<rparr>\<rparr> else w1);
                    quit' = (if was_flushed then 1 else quit)
                in do_call rt vcos_semaphore_post
                     (\<lambda>_. seq (if quit' = 0 then call_ignored rt (usleep 10000) else Running)
                              (\<lambda>w'. block_until_flushed rt n quit' w')) w2) w
      else Running w)"

text \<open>\<open>while(!ctx.camera_ready) usleep(10000)\<close>, lines 564 to 566.\<close>

fun wait_camera_ready :: "'r runtime \<Rightarrow> nat \<Rightarrow> 'r step" where
  "wait_camera_ready rt 0 w = (if camera_ready (ctx w) = 0 then Stop Hang w else Running w)"
| "wait_camera_ready rt (Suc n) w =
     (if camera_ready (ctx w) = 0
      then seq (call_ignored rt (usleep 10000)) (\<lambda>w'. wait_camera_ready rt n w') w
      else Running w)"

text \<open>\<open>while(!want_quit) usleep(1000)\<close>, lines 706 to 709.\<close>

fun wait_want_quit :: "'r runtime \<Rightarrow> nat \<Rightarrow> 'r step" where
  "wait_want_quit rt 0 w = (if want_quit w = 0 then Stop Hang w else Running w)"
| "wait_want_quit rt (Suc n) w =
     (if want_quit w = 0
      then seq (call_ignored rt (usleep 1000)) (\<lambda>w'. wait_want_quit rt n w') w
      else Running w)"

section \<open>Opening a component\<close>

text \<open>
  The inner loop of \<open>init_component_handle\<close>, lines 331 to 337, from the current
  \<open>nPortIndex\<close> (here \<open>nPortIdx\<close>); \<open>bound\<close> is \<open>ports.nStartPortNumber + ports.nPorts\<close> in 32 bit arithmetic.
\<close>

definition disable_port ::
  "'r runtime \<Rightarrow> nat \<Rightarrow> OMX_HANDLETYPE \<Rightarrow> string \<Rightarrow> u32 \<Rightarrow> 'r step" where
  "disable_port rt fuel hComponent fullname nPortIdx =
     run_steps
       [say (''Disabling port '' @ fmt_d nPortIdx @ '' of component '' @ fullname),
        omx_or_die rt (OMX_SendCommand hComponent (OMX_CommandPortDisable nPortIdx))
          (''Failed to disable port '' @ fmt_d nPortIdx @ '' of component '' @ fullname),
        block_until_port_changed rt fuel hComponent nPortIdx False]"

function disable_ports ::
  "'r runtime \<Rightarrow> nat \<Rightarrow> OMX_HANDLETYPE \<Rightarrow> string \<Rightarrow> u32 \<Rightarrow> u32 \<Rightarrow> 'r step" where
  "disable_ports rt fuel hComponent fullname nPortIdx bound w =
     (if nPortIdx < bound
      then (case disable_port rt fuel hComponent fullname nPortIdx w of
              Running w' \<Rightarrow> disable_ports rt fuel hComponent fullname (nPortIdx + 1) bound w'
            | Stop st w' \<Rightarrow> Stop st w')
      else Running w)"
  by pat_completeness auto
termination
proof (relation "measure (\<lambda>(rt, fuel, hComponent, fullname, nPortIdx, bound, w).
                   unat bound - unat nPortIdx)")
  show "wf (measure (\<lambda>(rt :: 'r runtime, fuel :: nat, hComponent :: OMX_HANDLETYPE,
              fullname :: string, nPortIdx :: u32, bound :: u32, w :: 'r world).
                   unat bound - unat nPortIdx))"
    by simp
next
  fix rt :: "'r runtime" and fuel :: nat and hComponent :: OMX_HANDLETYPE
    and fullname :: string and nPortIdx bound :: u32 and w x2 :: "'r world"
  assume lt: "nPortIdx < bound"
  then have "unat nPortIdx < unat bound"
    by (simp add: word_less_nat_alt)
  moreover have "unat (nPortIdx + 1) = unat nPortIdx + 1"
    using lt by (metis (no_types, lifting) add.commute add_0 inc_i inc_le
        unat_plus_simple unsigned_0 unsigned_1 word_gt_0)
  ultimately show "((rt, fuel, hComponent, fullname, nPortIdx + 1, bound, x2),
                    (rt, fuel, hComponent, fullname, nPortIdx, bound, w))
       \<in> measure (\<lambda>(rt, fuel, hComponent, fullname, nPortIdx, bound, w).
                   unat bound - unat nPortIdx)"
    by simp
qed

declare disable_ports.simps [simp del]

text \<open>The outer loop over \<open>types[]\<close>, lines 328 to 339.\<close>

fun probe_types ::
  "'r runtime \<Rightarrow> nat \<Rightarrow> OMX_HANDLETYPE \<Rightarrow> string \<Rightarrow> OMX_INDEXTYPE list \<Rightarrow> 'r step" where
  "probe_types rt fuel hComponent fullname [] w = Running w"
| "probe_types rt fuel hComponent fullname (t # ts) w =
     perform rt (rt_get_ports rt hComponent t) (GetPorts hComponent t)
       (\<lambda>(r, ports).
          seq (if r = OMX_ErrorNone
               then disable_ports rt fuel hComponent fullname (nStartPortNumber ports)
                      (nStartPortNumber ports + nPorts ports)
               else Running)
              (\<lambda>w'. probe_types rt fuel hComponent fullname ts w')) w"

definition types :: "OMX_INDEXTYPE list" where
  "types = [OMX_IndexParamAudioInit, OMX_IndexParamVideoInit,
            OMX_IndexParamImageInit, OMX_IndexParamOtherInit]"

text \<open>
  \<open>init_component_handle\<close>, lines 299 to 340. \<open>hComponent\<close> points to a member of the
  context: \<open>put\<close> stores the handle there.
\<close>

definition init_component_handle ::
  "'r runtime \<Rightarrow> nat \<Rightarrow> string \<Rightarrow> (OMX_HANDLETYPE \<Rightarrow> appctx \<Rightarrow> appctx) \<Rightarrow> 'r step" where
  "init_component_handle rt fuel name put w =
     (let fullname = component_fullname name
      in seq (say (''Initializing component '' @ fullname))
          (perform rt (rt_get_handle rt fullname (callbacks w)) (GetHandle fullname (callbacks w))
            (\<lambda>(r, h).
               seq (assign (\<lambda>w. w\<lparr>ctx := put h (ctx w)\<rparr>))
                 (if r \<noteq> OMX_ErrorNone
                  then omx_die r (''Failed to get handle for component '' @ fullname)
                  else seq (perform rt (rt_get_ports rt h OMX_IndexParamVideoInit)
                              (GetPorts h OMX_IndexParamVideoInit) (\<lambda>_. Running))
                           (probe_types rt fuel h fullname types)))) w)"

section \<open>The main routine\<close>

text \<open>Hard coded parameters, lines 52 to 68.\<close>

definition VIDEO_FRAMERATE :: u32 where "VIDEO_FRAMERATE = 25"
definition CAM_DEVICE_NUMBER :: u32 where "CAM_DEVICE_NUMBER = 0"
definition CAM_SHARPNESS :: s32 where "CAM_SHARPNESS = 0"
definition CAM_CONTRAST :: s32 where "CAM_CONTRAST = 0"
definition CAM_BRIGHTNESS :: u32 where "CAM_BRIGHTNESS = 50"
definition CAM_SATURATION :: s32 where "CAM_SATURATION = 0"
definition CAM_EXPOSURE_VALUE_COMPENSTAION :: s32 where "CAM_EXPOSURE_VALUE_COMPENSTAION = 0"
definition CAM_EXPOSURE_ISO_SENSITIVITY :: u32 where "CAM_EXPOSURE_ISO_SENSITIVITY = 100"
definition CAM_EXPOSURE_AUTO_SENSITIVITY :: bool where "CAM_EXPOSURE_AUTO_SENSITIVITY = False"
definition CAM_FRAME_STABILISATION :: bool where "CAM_FRAME_STABILISATION = True"
definition CAM_WHITE_BALANCE_CONTROL :: OMX_WHITEBALCONTROLTYPE where
  "CAM_WHITE_BALANCE_CONTROL = OMX_WhiteBalControlAuto"
definition CAM_IMAGE_FILTER :: OMX_IMAGEFILTERTYPE where
  "CAM_IMAGE_FILTER = OMX_ImageFilterNoise"
definition CAM_FLIP_HORIZONTAL :: bool where "CAM_FLIP_HORIZONTAL = False"
definition CAM_FLIP_VERTICAL :: bool where "CAM_FLIP_VERTICAL = False"
definition DISPLAY_DEVICE :: u32 where "DISPLAY_DEVICE = 0"

text \<open>
  \<open>main\<close> is a sequence of statements, each of which may end the process. It is given
  here block by block, in the order of the source, as lists of steps. A statement whose
  arguments are read from the state (a handle in the context, a local) reads them when
  it runs.
\<close>

definition reading :: "('r world \<Rightarrow> 'r step) \<Rightarrow> 'r step" where
  "reading f w = f w w"

definition zero_ctx :: appctx where
  "zero_ctx = \<lparr>camera = 0, camera_ppBuffer_in = 0, camera_ready = 0, render = 0,
               null_sink = 0, flushed = 0\<rparr>"

text \<open>
  Lines 386 to 404. The second \<open>memset\<close> (line 403) is applied to \<open>ctx\<close> with the size of
  \<open>callbacks\<close>, three pointers: it clears the first three members of \<open>ctx\<close>, and
  \<open>callbacks\<close> keeps what it held but for the member assigned on line 404.
\<close>

definition main_init :: "'r runtime \<Rightarrow> indeterminate \<Rightarrow> 'r step list" where
  "main_init rt ind =
     [call_ignored rt bcm_host_init,
      omx_or_die rt OMX_Init ''OMX initalization failed'',
      assign (\<lambda>w. w\<lparr>ctx := zero_ctx\<rparr>),
      do_call rt vcos_semaphore_create
        (\<lambda>r. if r \<noteq> 0 then die ''Failed to create handler lock semaphore'' else Running),
      assign (\<lambda>w. w\<lparr>ctx := (ctx w)\<lparr>camera := 0, camera_ppBuffer_in := 0, camera_ready := 0\<rparr>\<rparr>),
      assign (\<lambda>w. w\<lparr>callbacks := (callbacks w)\<lparr>EventHandler := event_handler_addr ind\<rparr>\<rparr>)]"

text \<open>Lines 406 to 408.\<close>

definition main_open_components :: "'r runtime \<Rightarrow> nat \<Rightarrow> 'r step list" where
  "main_open_components rt fuel =
     [init_component_handle rt fuel ''camera'' (\<lambda>h c. c\<lparr>camera := h\<rparr>),
      init_component_handle rt fuel ''video_render'' (\<lambda>h c. c\<lparr>render := h\<rparr>),
      init_component_handle rt fuel ''null_sink'' (\<lambda>h c. c\<lparr>null_sink := h\<rparr>)]"

text \<open>Lines 410 to 413.\<close>

definition main_display_size :: "'r runtime \<Rightarrow> 'r step list" where
  "main_display_size rt =
     [assign (\<lambda>w. w\<lparr>screen_width := 0, screen_height := 0\<rparr>),
      perform rt (rt_display_size rt DISPLAY_DEVICE) (DisplaySize DISPLAY_DEVICE)
        (\<lambda>(rc, width, height).
           seq (assign (\<lambda>w. w\<lparr>screen_width := width, screen_height := height\<rparr>))
               (if rc < 0 then die ''Failed to get display size'' else Running))]"

text \<open>Lines 415 to 441.\<close>

definition main_camera_setup :: "'r runtime \<Rightarrow> 'r step list" where
  "main_camera_setup rt =
     [say ''Configuring camera...'',
      say ''Default port definition for camera input port 73'',
      reading (\<lambda>w. dump_port rt (camera (ctx w)) 73),
      say ''Default port definition for camera preview output port 70'',
      reading (\<lambda>w. dump_port rt (camera (ctx w)) 70),
      say ''Default port definition for camera video output port 71'',
      reading (\<lambda>w. dump_port rt (camera (ctx w)) 71),
      reading (\<lambda>w. omx_or_die rt
         (OMX_SetConfig (camera (ctx w)) (IndexConfigRequestCallback OMX_ALL True))
         ''Failed to request camera device number parameter change callback for camera''),
      reading (\<lambda>w. omx_or_die rt
         (OMX_SetParameter (camera (ctx w)) (IndexParamCameraDeviceNumber OMX_ALL CAM_DEVICE_NUMBER))
         ''Failed to set camera parameter device number'')]"

text \<open>
  The statement \<open>OMX_GetParameter(h, OMX_IndexParamPortDefinition, &camera_portdef)\<close> with
  its check: \<open>camera_portdef\<close> becomes what the runtime left in it.
\<close>

definition get_camera_portdef :: "'r runtime \<Rightarrow> u32 \<Rightarrow> string \<Rightarrow> 'r step" where
  "get_camera_portdef rt nPortIdx msg =
     reading (\<lambda>w.
       perform rt (rt_get_portdef rt (camera (ctx w)) nPortIdx) (GetPortDef (camera (ctx w)) nPortIdx)
         (\<lambda>(r, portdef).
            seq (assign (\<lambda>w. w\<lparr>camera_portdef := portdef\<rparr>))
                (if r \<noteq> OMX_ErrorNone then omx_die r msg else Running)))"

definition set_camera_portdef :: "'r runtime \<Rightarrow> string \<Rightarrow> 'r step" where
  "set_camera_portdef rt msg =
     reading (\<lambda>w.
       omx_or_die rt
         (OMX_SetParameter (camera (ctx w)) (IndexParamPortDefinition (camera_portdef w))) msg)"

text \<open>
  Lines 449 to 452: the four assignments to the video view of the format, in order; the
  last one reads \<open>format.image.nFrameWidth\<close> after the first has written
  \<open>format.video.nFrameWidth\<close>.
\<close>

definition preview_format ::
  "u32 \<Rightarrow> u32 \<Rightarrow> OMX_VIDEO_PORTDEFINITIONTYPE \<Rightarrow> OMX_VIDEO_PORTDEFINITIONTYPE" where
  "preview_format width height f =
     (let f = f\<lparr>nFrameWidth := width div 2\<rparr>;
          f = f\<lparr>nFrameHeight := height div 2\<rparr>;
          f = f\<lparr>xFramerate := push_bit 16 VIDEO_FRAMERATE\<rparr>;
          f = f\<lparr>nStride := image_nFrameWidth f\<rparr>
      in f)"

text \<open>Lines 443 to 455: the camera preview output port 70.\<close>

definition main_preview_port :: "'r runtime \<Rightarrow> 'r step list" where
  "main_preview_port rt =
     [get_camera_portdef rt 70 ''Failed to get port definition for camera preview output port 70'',
      assign (\<lambda>w. w\<lparr>camera_portdef := (camera_portdef w)
                \<lparr>format := preview_format (screen_width w) (screen_height w)
                             (format (camera_portdef w))\<rparr>\<rparr>),
      set_camera_portdef rt ''Failed to set port definition for camera preview output port 70'']"

text \<open>Lines 456 to 467: the camera video output port 71.\<close>

definition main_video_port :: "'r runtime \<Rightarrow> 'r step list" where
  "main_video_port rt =
     [get_camera_portdef rt 70 ''Failed to get port definition for camera preview output port 70'',
      assign (\<lambda>w. w\<lparr>camera_portdef := (camera_portdef w)\<lparr>nPortIndex := 71\<rparr>\<rparr>),
      set_camera_portdef rt ''Failed to set port definition for camera video output port 71'']"

definition eMirror :: OMX_MIRRORTYPE where
  "eMirror =
     (if CAM_FLIP_HORIZONTAL \<and> \<not> CAM_FLIP_VERTICAL then OMX_MirrorHorizontal
      else if \<not> CAM_FLIP_HORIZONTAL \<and> CAM_FLIP_VERTICAL then OMX_MirrorVertical
      else if CAM_FLIP_HORIZONTAL \<and> CAM_FLIP_VERTICAL then OMX_MirrorBoth
      else OMX_MirrorNone)"

text \<open>Lines 468 to 479: the frame rate of the two output ports.\<close>

definition main_framerate :: "'r runtime \<Rightarrow> 'r step list" where
  "main_framerate rt =
     [reading (\<lambda>w. omx_or_die rt
         (OMX_SetConfig (camera (ctx w))
            (IndexConfigVideoFramerate 70 (xFramerate (format (camera_portdef w)))))
         ''Failed to set framerate configuration for camera preview output port 70''),
      reading (\<lambda>w. omx_or_die rt
         (OMX_SetConfig (camera (ctx w))
            (IndexConfigVideoFramerate 71 (xFramerate (format (camera_portdef w)))))
         ''Failed to set framerate configuration for camera video output port 71'')]"

text \<open>Lines 480 to 561.\<close>

definition main_camera_tuning :: "'r runtime \<Rightarrow> 'r step list" where
  "main_camera_tuning rt =
     [reading (\<lambda>w. omx_or_die rt
         (OMX_SetConfig (camera (ctx w)) (IndexConfigCommonSharpness OMX_ALL CAM_SHARPNESS))
         ''Failed to set camera sharpness configuration''),
      reading (\<lambda>w. omx_or_die rt
         (OMX_SetConfig (camera (ctx w)) (IndexConfigCommonContrast OMX_ALL CAM_CONTRAST))
         ''Failed to set camera contrast configuration''),
      reading (\<lambda>w. omx_or_die rt
         (OMX_SetConfig (camera (ctx w)) (IndexConfigCommonSaturation OMX_ALL CAM_SATURATION))
         ''Failed to set camera saturation configuration''),
      reading (\<lambda>w. omx_or_die rt
         (OMX_SetConfig (camera (ctx w)) (IndexConfigCommonBrightness OMX_ALL CAM_BRIGHTNESS))
         ''Failed to set camera brightness configuration''),
      reading (\<lambda>w. omx_or_die rt
         (OMX_SetConfig (camera (ctx w))
            (IndexConfigCommonExposureValue OMX_ALL CAM_EXPOSURE_VALUE_COMPENSTAION
               CAM_EXPOSURE_AUTO_SENSITIVITY CAM_EXPOSURE_ISO_SENSITIVITY))
         ''Failed to set camera exposure value configuration''),
      reading (\<lambda>w. omx_or_die rt
         (OMX_SetConfig (camera (ctx w))
            (IndexConfigCommonFrameStabilisation OMX_ALL CAM_FRAME_STABILISATION))
         ''Failed to set camera frame frame stabilisation control configuration''),
      reading (\<lambda>w. omx_or_die rt
         (OMX_SetConfig (camera (ctx w))
            (IndexConfigCommonWhiteBalance OMX_ALL CAM_WHITE_BALANCE_CONTROL))
         ''Failed to set camera frame white balance control configuration''),
      reading (\<lambda>w. omx_or_die rt
         (OMX_SetConfig (camera (ctx w)) (IndexConfigCommonImageFilter OMX_ALL CAM_IMAGE_FILTER))
         ''Failed to set camera image filter configuration''),
      reading (\<lambda>w. omx_or_die rt
         (OMX_SetConfig (camera (ctx w)) (IndexConfigCommonMirror 71 eMirror))
         ''Failed to set mirror configuration for camera video output port 71'')]"

text \<open>Lines 563 to 566.\<close>

definition main_camera_ready :: "'r runtime \<Rightarrow> nat \<Rightarrow> 'r step list" where
  "main_camera_ready rt fuel = [wait_camera_ready rt fuel]"

text \<open>
  Lines 576 to 586. The members of \<open>dest_rect\<close> are 16 bit: the frame size is converted,
  and the offsets are halves by C's signed division, which truncates towards zero.
\<close>

definition half_s16 :: "16 word \<Rightarrow> 16 word" where
  "half_s16 v = (if sint v < 0 then word_of_int (- ((- sint v) div 2))
                 else word_of_int (sint v div 2))"

definition display_region :: "OMX_PARAM_PORTDEFINITIONTYPE \<Rightarrow> OMX_CONFIG_DISPLAYREGIONTYPE" where
  "display_region portdef =
     (let width = (ucast (nFrameWidth (format portdef)) :: 16 word);
          height = (ucast (nFrameHeight (format portdef)) :: 16 word)
      in \<lparr>region_nPortIndex = 90,
          region_set = [OMX_DISPLAY_SET_NUM, OMX_DISPLAY_SET_FULLSCREEN,
                        OMX_DISPLAY_SET_MODE, OMX_DISPLAY_SET_DEST_RECT],
          region_num = DISPLAY_DEVICE,
          region_fullscreen = False,
          region_mode = OMX_DISPLAY_MODE_FILL,
          dest_rect_x_offset = half_s16 width,
          dest_rect_y_offset = half_s16 height,
          dest_rect_width = width,
          dest_rect_height = height\<rparr>)"

text \<open>Lines 568 to 608.\<close>

definition main_render_and_tunnels :: "'r runtime \<Rightarrow> 'r step list" where
  "main_render_and_tunnels rt =
     [say ''Configuring render...'',
      say ''Default port definition for render input port 90'',
      reading (\<lambda>w. dump_port rt (render (ctx w)) 90),
      reading (\<lambda>w. omx_or_die rt
         (OMX_SetConfig (render (ctx w)) (IndexConfigDisplayRegion (display_region (camera_portdef w))))
         ''Failed to set display region for render output port 90''),
      say ''Configuring null sink...'',
      say ''Default port definition for null sink input port 240'',
      reading (\<lambda>w. dump_port rt (null_sink (ctx w)) 240),
      say ''Setting up tunnel from camera preview output port 70 to null sink input port 240...'',
      reading (\<lambda>w. omx_or_die rt (OMX_SetupTunnel (camera (ctx w)) 70 (null_sink (ctx w)) 240)
         ''Failed to setup tunnel between camera preview output port 70 and null sink input port 240''),
      say ''Setting up tunnel from camera video output port 71 to render input port 90...'',
      reading (\<lambda>w. omx_or_die rt (OMX_SetupTunnel (camera (ctx w)) 71 (render (ctx w)) 90)
         ''Failed to setup tunnel between camera video output port 71 and render input port 90'')]"

text \<open>The components, as the members of the context that hold their handles.\<close>

datatype component = Camera | Render | Null_sink

fun handle_of :: "component \<Rightarrow> appctx \<Rightarrow> OMX_HANDLETYPE" where
  "handle_of Camera c = camera c"
| "handle_of Render c = render c"
| "handle_of Null_sink c = null_sink c"

text \<open>\<open>OMX_SendCommand(ctx.<component>, ...)\<close> with its check.\<close>

definition send_command :: "'r runtime \<Rightarrow> component \<Rightarrow> OMX_COMMANDTYPE \<Rightarrow> string \<Rightarrow> 'r step" where
  "send_command rt cpt cmd msg =
     reading (\<lambda>w. omx_or_die rt (OMX_SendCommand (handle_of cpt (ctx w)) cmd) msg)"

definition state_changed :: "'r runtime \<Rightarrow> nat \<Rightarrow> component \<Rightarrow> OMX_STATETYPE \<Rightarrow> 'r step" where
  "state_changed rt fuel cpt wanted =
     reading (\<lambda>w. block_until_state_changed rt fuel (handle_of cpt (ctx w)) wanted)"

definition port_changed :: "'r runtime \<Rightarrow> nat \<Rightarrow> component \<Rightarrow> u32 \<Rightarrow> bool \<Rightarrow> 'r step" where
  "port_changed rt fuel cpt nPortIdx enabled =
     reading (\<lambda>w. block_until_port_changed rt fuel (handle_of cpt (ctx w)) nPortIdx enabled)"

text \<open>Lines 610 to 688: idle, enable the ports, allocate, executing, capture on.\<close>

definition main_startup :: "'r runtime \<Rightarrow> nat \<Rightarrow> 'r step list" where
  "main_startup rt fuel =
     [say ''Switching state of the camera component to idle...'',
      send_command rt Camera (OMX_CommandStateSet OMX_StateIdle)
        ''Failed to switch state of the camera component to idle'',
      state_changed rt fuel Camera OMX_StateIdle,
      say ''Switching state of the render component to idle...'',
      send_command rt Render (OMX_CommandStateSet OMX_StateIdle)
        ''Failed to switch state of the render component to idle'',
      state_changed rt fuel Render OMX_StateIdle,
      say ''Switching state of the null sink component to idle...'',
      send_command rt Null_sink (OMX_CommandStateSet OMX_StateIdle)
        ''Failed to switch state of the null sink component to idle'',
      state_changed rt fuel Null_sink OMX_StateIdle,
      say ''Enabling ports...'',
      send_command rt Camera (OMX_CommandPortEnable 73) ''Failed to enable camera input port 73'',
      port_changed rt fuel Camera 73 True,
      send_command rt Camera (OMX_CommandPortEnable 70)
        ''Failed to enable camera preview output port 70'',
      port_changed rt fuel Camera 70 True,
      send_command rt Camera (OMX_CommandPortEnable 71)
        ''Failed to enable camera video output port 71'',
      port_changed rt fuel Camera 71 True,
      send_command rt Render (OMX_CommandPortEnable 90) ''Failed to enable render input port 90'',
      port_changed rt fuel Render 90 True,
      send_command rt Null_sink (OMX_CommandPortEnable 240)
        ''Failed to enable null sink input port 240'',
      port_changed rt fuel Null_sink 240 True,
      say ''Allocating buffers...'',
      get_camera_portdef rt 73 ''Failed to get port definition for camera input port 73'',
      reading (\<lambda>w. perform rt (rt_allocate_buffer rt (camera (ctx w)) 73 (nBufferSize (camera_portdef w)))
              (AllocateBuffer (camera (ctx w)) 73 (nBufferSize (camera_portdef w)))
              (\<lambda>(r, buffer).
                 seq (assign (\<lambda>w. w\<lparr>ctx := (ctx w)\<lparr>camera_ppBuffer_in := buffer\<rparr>\<rparr>))
                     (if r \<noteq> OMX_ErrorNone
                      then omx_die r ''Failed to allocate buffer for camera input port 73''
                      else Running))),
      say ''Switching state of the camera component to executing...'',
      send_command rt Camera (OMX_CommandStateSet OMX_StateExecuting)
        ''Failed to switch state of the camera component to executing'',
      state_changed rt fuel Camera OMX_StateExecuting,
      say ''Switching state of the render component to executing...'',
      send_command rt Render (OMX_CommandStateSet OMX_StateExecuting)
        ''Failed to switch state of the render component to executing'',
      state_changed rt fuel Render OMX_StateExecuting,
      say ''Switching state of the null sink component to executing...'',
      send_command rt Null_sink (OMX_CommandStateSet OMX_StateExecuting)
        ''Failed to switch state of the null sink component to executing'',
      state_changed rt fuel Null_sink OMX_StateExecuting,
      say ''Switching on capture on camera video output port 71...'',
      reading (\<lambda>w. omx_or_die rt (OMX_SetParameter (camera (ctx w)) (IndexConfigPortCapturing 71 True))
         ''Failed to switch on capture on camera video output port 71'')]"

text \<open>
  Lines 690 to 715: the configured ports are dumped, the handler is installed for the
  three signals, the program sleeps until \<open>want_quit\<close> is set, and the default dispositions
  are restored.
\<close>

definition set_signal :: "'r runtime \<Rightarrow> signal_number \<Rightarrow> disposition \<Rightarrow> 'r step" where
  "set_signal rt sig d =
     seq (call_ignored rt (signal sig d))
         (assign (\<lambda>w. w\<lparr>handled := (case d of Handler \<Rightarrow> sig # handled w
                                        | SIG_DFL \<Rightarrow> removeAll sig (handled w))\<rparr>))"

definition main_playback :: "'r runtime \<Rightarrow> nat \<Rightarrow> 'r step list" where
  "main_playback rt fuel =
     [say ''Configured port definition for camera input port 73'',
      reading (\<lambda>w. dump_port rt (camera (ctx w)) 73),
      say ''Configured port definition for camera preview output port 70'',
      reading (\<lambda>w. dump_port rt (camera (ctx w)) 70),
      say ''Configured port definition for camera video output port 71'',
      reading (\<lambda>w. dump_port rt (camera (ctx w)) 71),
      say ''Configured port definition for render input port 90'',
      reading (\<lambda>w. dump_port rt (render (ctx w)) 90),
      say ''Configured port definition for null sink input port 240'',
      reading (\<lambda>w. dump_port rt (null_sink (ctx w)) 240),
      say ''Enter capture and playback loop, press Ctrl-C to quit...'',
      set_signal rt SIGINT Handler,
      set_signal rt SIGTERM Handler,
      set_signal rt SIGQUIT Handler,
      wait_want_quit rt fuel,
      say ''Cleaning up...'',
      set_signal rt SIGINT SIG_DFL,
      set_signal rt SIGTERM SIG_DFL,
      set_signal rt SIGQUIT SIG_DFL]"

text \<open>Lines 717 to 745: capture off, and the five flushes.\<close>

definition main_flush :: "'r runtime \<Rightarrow> indeterminate \<Rightarrow> nat \<Rightarrow> 'r step list" where
  "main_flush rt ind fuel =
     [reading (\<lambda>w. omx_or_die rt (OMX_SetParameter (camera (ctx w)) (IndexConfigPortCapturing 71 False))
         ''Failed to switch off capture on camera video output port 71''),
      send_command rt Camera (OMX_CommandFlush 73)
        ''Failed to flush buffers of camera input port 73'',
      block_until_flushed rt fuel (quit_garbage ind 0),
      send_command rt Camera (OMX_CommandFlush 70)
        ''Failed to flush buffers of camera preview output port 70'',
      block_until_flushed rt fuel (quit_garbage ind 1),
      send_command rt Camera (OMX_CommandFlush 71)
        ''Failed to flush buffers of camera video output port 71'',
      block_until_flushed rt fuel (quit_garbage ind 2),
      send_command rt Render (OMX_CommandFlush 90)
        ''Failed to flush buffers of render input port 90'',
      block_until_flushed rt fuel (quit_garbage ind 3),
      send_command rt Null_sink (OMX_CommandFlush 240)
        ''Failed to flush buffers of null sink input port 240'',
      block_until_flushed rt fuel (quit_garbage ind 4)]"

text \<open>Lines 747 to 766: the ports are disabled.\<close>

definition main_disable_ports :: "'r runtime \<Rightarrow> nat \<Rightarrow> 'r step list" where
  "main_disable_ports rt fuel =
     [send_command rt Camera (OMX_CommandPortDisable 73) ''Failed to disable camera input port 73'',
      port_changed rt fuel Camera 73 False,
      send_command rt Camera (OMX_CommandPortDisable 70)
        ''Failed to disable camera preview output port 70'',
      port_changed rt fuel Camera 70 False,
      send_command rt Camera (OMX_CommandPortDisable 71)
        ''Failed to disable camera video output port 71'',
      port_changed rt fuel Camera 71 False,
      send_command rt Render (OMX_CommandPortDisable 90) ''Failed to disable render input port 90'',
      send_command rt Null_sink (OMX_CommandPortDisable 240)
        ''Failed to disable null sink input port 240'',
      port_changed rt fuel Null_sink 240 False]"

text \<open>Lines 768 to 808: the buffer is freed, the components go to idle, then to loaded, and the handles are freed.\<close>

definition main_release :: "'r runtime \<Rightarrow> nat \<Rightarrow> 'r step list" where
  "main_release rt fuel =
     [reading (\<lambda>w. omx_or_die rt (OMX_FreeBuffer (camera (ctx w)) 73 (camera_ppBuffer_in (ctx w)))
         ''Failed to free buffer for camera input port 73''),
      send_command rt Camera (OMX_CommandStateSet OMX_StateIdle)
        ''Failed to switch state of the camera component to idle'',
      state_changed rt fuel Camera OMX_StateIdle,
      send_command rt Render (OMX_CommandStateSet OMX_StateIdle)
        ''Failed to switch state of the render component to idle'',
      state_changed rt fuel Render OMX_StateIdle,
      send_command rt Null_sink (OMX_CommandStateSet OMX_StateIdle)
        ''Failed to switch state of the null sink component to idle'',
      state_changed rt fuel Null_sink OMX_StateIdle,
      send_command rt Camera (OMX_CommandStateSet OMX_StateLoaded)
        ''Failed to switch state of the camera component to loaded'',
      state_changed rt fuel Camera OMX_StateLoaded,
      send_command rt Render (OMX_CommandStateSet OMX_StateLoaded)
        ''Failed to switch state of the render component to loaded'',
      state_changed rt fuel Render OMX_StateLoaded,
      send_command rt Null_sink (OMX_CommandStateSet OMX_StateLoaded)
        ''Failed to switch state of the null sink component to loaded'',
      state_changed rt fuel Null_sink OMX_StateLoaded,
      reading (\<lambda>w. omx_or_die rt (OMX_FreeHandle (camera (ctx w)))
         ''Failed to free camera component handle''),
      reading (\<lambda>w. omx_or_die rt (OMX_FreeHandle (render (ctx w)))
         ''Failed to free render component handle''),
      reading (\<lambda>w. omx_or_die rt (OMX_FreeHandle (null_sink (ctx w)))
         ''Failed to free null sink component handle'')]"

text \<open>Lines 810 to 816.\<close>

definition main_exit :: "'r runtime \<Rightarrow> 'r step list" where
  "main_exit rt =
     [call_ignored rt vcos_semaphore_delete,
      omx_or_die rt OMX_Deinit ''OMX de-initalization failed'',
      say ''Exit!'']"

text \<open>Lines 386 to 608, up to the tunnels; lines 386 to 688, up to the start of the capture; and all of \<open>main\<close>.\<close>

definition main_until_tunnels :: "'r runtime \<Rightarrow> indeterminate \<Rightarrow> nat \<Rightarrow> 'r step list" where
  "main_until_tunnels rt ind fuel =
     main_init rt ind @ main_open_components rt fuel @ main_display_size rt @ main_camera_setup rt
     @ main_preview_port rt @ main_video_port rt @ main_framerate rt
     @ main_camera_tuning rt @ main_camera_ready rt fuel @ main_render_and_tunnels rt"

definition main_until_capture :: "'r runtime \<Rightarrow> indeterminate \<Rightarrow> nat \<Rightarrow> 'r step list" where
  "main_until_capture rt ind fuel = main_until_tunnels rt ind fuel @ main_startup rt fuel"

definition main_steps :: "'r runtime \<Rightarrow> indeterminate \<Rightarrow> nat \<Rightarrow> 'r step list" where
  "main_steps rt ind fuel =
     main_until_capture rt ind fuel
     @ main_playback rt fuel @ main_flush rt ind fuel @ main_disable_ports rt fuel
     @ main_release rt fuel @ main_exit rt"

text \<open>
  The state \<open>main\<close> starts in: the static \<open>want_quit\<close> is 0, no handler is installed,
  \<open>callbacks\<close> holds whatever its storage held, and nothing has happened yet. The other
  locals are written before they are read.
\<close>

definition initial_world :: "indeterminate \<Rightarrow> 'r \<Rightarrow> 'r world" where
  "initial_world ind s =
     \<lparr>rts = s, want_quit = 0, handled = [], ctx = zero_ctx,
      callbacks = callbacks_garbage ind, screen_width = 0, screen_height = 0,
      camera_portdef =
        \<lparr>nSize = 0, nVersion = 0, nPortIndex = 0, eDir = OMX_DirInput, nBufferCountActual = 0,
         nBufferCountMin = 0, nBufferSize = 0, bEnabled = False, bPopulated = False,
         eDomain = OMX_PortDomainAudio,
         format = \<lparr>cMIMEType = 0, pNativeRender = 0, nFrameWidth = 0, nFrameHeight = 0,
           nStride = 0, nSliceHeight = 0, nBitrate = 0, xFramerate = 0,
           bFlagErrorConcealment = 0, eCompressionFormat = 0, eColorFormat = 0,
           pNativeWindow = 0\<rparr>,
         bBuffersContiguous = False, nBufferAlignment = 0\<rparr>,
      trace = [], err_out = []\<rparr>"

text \<open>\<open>main\<close> returns 0 when its last statement is reached.\<close>

definition main :: "'r runtime \<Rightarrow> indeterminate \<Rightarrow> nat \<Rightarrow> 'r \<Rightarrow> 'r res" where
  "main rt ind fuel s =
     (case run_steps (main_steps rt ind fuel) (initial_world ind s) of
        Running w \<Rightarrow> Stop (Exit 0) w
      | Stop st w \<Rightarrow> Stop st w)"

section \<open>A test runtime\<close>

text \<open>
  A runtime to run the program on. It knows the three components by name, with the ports
  of the device (camera 70 to 73, render 90, null sink 240 to 242), all enabled when a
  component is opened. A state or port command is accepted and takes effect during the
  next sleep of the program; the completion callback of a command, and any other pending
  callback, is delivered while the program sleeps or waits for the lock; the device number
  callback is delivered before \<open>OMX_SetParameter\<close> returns. A port definition that is set
  is stored and returned by later queries. The display is 1920 by 1080. A sleep of 1 ms
  (the playback loop) is interrupted by \<open>SIGINT\<close>.
\<close>

record mock =
  m_state :: "(OMX_HANDLETYPE \<times> OMX_STATETYPE) list"
  m_portdef :: "((OMX_HANDLETYPE \<times> u32) \<times> OMX_PARAM_PORTDEFINITIONTYPE) list"
  m_next_state :: "(OMX_HANDLETYPE \<times> OMX_STATETYPE) list"
  m_next_enabled :: "((OMX_HANDLETYPE \<times> u32) \<times> bool) list"
  m_pending :: "async list"

definition mock_index_camera_device_number :: u32 where
  "mock_index_camera_device_number = 0x7F000099"

definition mock_default_portdef :: "u32 \<Rightarrow> OMX_PARAM_PORTDEFINITIONTYPE" where
  "mock_default_portdef p =
     \<lparr>nSize = 96, nVersion = 0x00020101, nPortIndex = p,
      eDir = (if p = 70 \<or> p = 71 \<or> p = 72 then OMX_DirOutput else OMX_DirInput),
      nBufferCountActual = 1, nBufferCountMin = 1, nBufferSize = 15360, bEnabled = True,
      bPopulated = False,
      eDomain = (if p = 73 then OMX_PortDomainOther else OMX_PortDomainVideo),
      format = \<lparr>cMIMEType = 0, pNativeRender = 0, nFrameWidth = 320, nFrameHeight = 240,
        nStride = 320, nSliceHeight = 240, nBitrate = 0, xFramerate = 0,
        bFlagErrorConcealment = 0, eCompressionFormat = 0, eColorFormat = 20,
        pNativeWindow = 0\<rparr>,
      bBuffersContiguous = False, nBufferAlignment = 16\<rparr>"

definition mock_lookup_portdef :: "mock \<Rightarrow> OMX_HANDLETYPE \<Rightarrow> u32 \<Rightarrow> OMX_PARAM_PORTDEFINITIONTYPE" where
  "mock_lookup_portdef s h p =
     (case map_of (m_portdef s) (h, p) of Some d \<Rightarrow> d | None \<Rightarrow> mock_default_portdef p)"

definition mock_settle :: "mock \<Rightarrow> mock" where
  "mock_settle s =
     s\<lparr>m_state := m_next_state s @ m_state s,
       m_portdef := map (\<lambda>((h, p), b). ((h, p), (mock_lookup_portdef s h p)\<lparr>bEnabled := b\<rparr>))
                      (m_next_enabled s) @ m_portdef s,
       m_next_state := [], m_next_enabled := [], m_pending := []\<rparr>"

definition mock_ports :: "OMX_HANDLETYPE \<Rightarrow> OMX_INDEXTYPE \<Rightarrow> OMX_PORT_PARAM_TYPE" where
  "mock_ports h t =
     (if h = 1 \<and> t = OMX_IndexParamVideoInit then \<lparr>nPorts = 2, nStartPortNumber = 70\<rparr>
      else if h = 1 \<and> t = OMX_IndexParamImageInit then \<lparr>nPorts = 1, nStartPortNumber = 72\<rparr>
      else if h = 1 \<and> t = OMX_IndexParamOtherInit then \<lparr>nPorts = 1, nStartPortNumber = 73\<rparr>
      else if h = 2 \<and> t = OMX_IndexParamVideoInit then \<lparr>nPorts = 1, nStartPortNumber = 90\<rparr>
      else if h = 3 \<and> t = OMX_IndexParamVideoInit then \<lparr>nPorts = 1, nStartPortNumber = 240\<rparr>
      else if h = 3 \<and> t = OMX_IndexParamImageInit then \<lparr>nPorts = 1, nStartPortNumber = 241\<rparr>
      else if h = 3 \<and> t = OMX_IndexParamAudioInit then \<lparr>nPorts = 1, nStartPortNumber = 242\<rparr>
      else \<lparr>nPorts = 0, nStartPortNumber = 0\<rparr>)"

fun mock_call :: "call \<Rightarrow> mock \<Rightarrow> u32 \<times> async list \<times> mock" where
  "mock_call (usleep n) s =
     (0, m_pending s @ (if n = 1000 then [Signal SIGINT] else []), mock_settle s)"
| "mock_call vcos_semaphore_wait s = (0, m_pending s, s\<lparr>m_pending := []\<rparr>)"
| "mock_call (calloc n m) s = (0x2000, [], s)"
| "mock_call (OMX_SendCommand h (OMX_CommandStateSet st)) s =
     (0, [], s\<lparr>m_next_state := (h, st) # m_next_state s,
               m_pending := m_pending s @ [Event h OMX_EventCmdComplete 0 0]\<rparr>)"
| "mock_call (OMX_SendCommand h (OMX_CommandFlush p)) s =
     (0, [], s\<lparr>m_pending := m_pending s @ [Event h OMX_EventCmdComplete 1 p]\<rparr>)"
| "mock_call (OMX_SendCommand h (OMX_CommandPortDisable p)) s =
     (0, [], s\<lparr>m_next_enabled := ((h, p), False) # m_next_enabled s,
               m_pending := m_pending s @ [Event h OMX_EventCmdComplete 2 p]\<rparr>)"
| "mock_call (OMX_SendCommand h (OMX_CommandPortEnable p)) s =
     (0, [], s\<lparr>m_next_enabled := ((h, p), True) # m_next_enabled s,
               m_pending := m_pending s @ [Event h OMX_EventCmdComplete 3 p]\<rparr>)"
| "mock_call (OMX_SetParameter h (IndexParamCameraDeviceNumber p n)) s =
     (0, [Event h OMX_EventParamOrConfigChanged p mock_index_camera_device_number], s)"
| "mock_call (OMX_SetParameter h (IndexParamPortDefinition d)) s =
     (0, [], s\<lparr>m_portdef := ((h, nPortIndex d),
                     d\<lparr>bEnabled := bEnabled (mock_lookup_portdef s h (nPortIndex d))\<rparr>)
                   # m_portdef s\<rparr>)"
| "mock_call c s = (0, [], s)"

definition mock_get_handle ::
  "string \<Rightarrow> OMX_CALLBACKTYPE \<Rightarrow> mock \<Rightarrow> (OMX_ERRORTYPE \<times> OMX_HANDLETYPE) \<times> async list \<times> mock" where
  "mock_get_handle name cb s =
     (if name = ''OMX.broadcom.camera'' then ((0, 1), [], s\<lparr>m_state := (1, OMX_StateLoaded) # m_state s\<rparr>)
      else if name = ''OMX.broadcom.video_render'' then ((0, 2), [], s\<lparr>m_state := (2, OMX_StateLoaded) # m_state s\<rparr>)
      else if name = ''OMX.broadcom.null_sink'' then ((0, 3), [], s\<lparr>m_state := (3, OMX_StateLoaded) # m_state s\<rparr>)
      else ((0x80001003, 0), [], s))"

definition mock_rt :: "mock runtime" where
  "mock_rt =
     \<lparr>rt_call = mock_call,
      rt_get_handle = mock_get_handle,
      rt_get_ports = (\<lambda>h t s. ((0, mock_ports h t), [], s)),
      rt_get_portdef = (\<lambda>h p s. ((0, mock_lookup_portdef s h p), [], s)),
      rt_get_state = (\<lambda>h s. ((0, case map_of (m_state s) h of Some st \<Rightarrow> st
                                     | None \<Rightarrow> OMX_StateInvalid), [], s)),
      rt_allocate_buffer = (\<lambda>h p n s. ((0, 0x1000), [], s)),
      rt_display_size = (\<lambda>d s. ((0, 1920, 1080), [], s)),
      OMX_IndexParamCameraDeviceNumber = mock_index_camera_device_number\<rparr>"

definition mock_start :: mock where
  "mock_start = \<lparr>m_state = [], m_portdef = [], m_next_state = [], m_next_enabled = [],
                 m_pending = []\<rparr>"

text \<open>
  Two choices of what is left open: every \<open>quit\<close> starts at 0 and \<open>callbacks\<close> starts
  zeroed; or every \<open>quit\<close> starts at 1 and the storage of \<open>callbacks\<close> holds
  \<open>0xDEADBEEF\<close> in each word.
\<close>

definition benign :: indeterminate where
  "benign = \<lparr>callbacks_garbage = \<lparr>EventHandler = 0, EmptyBufferDone = 0, FillBufferDone = 0\<rparr>,
             quit_garbage = (\<lambda>i. 0), event_handler_addr = 0x00010A30\<rparr>"

definition garbage :: indeterminate where
  "garbage = \<lparr>callbacks_garbage = \<lparr>EventHandler = 0xDEADBEEF, EmptyBufferDone = 0xDEADBEEF,
                                     FillBufferDone = 0xDEADBEEF\<rparr>,
              quit_garbage = (\<lambda>i. 1), event_handler_addr = 0x00010A30\<rparr>"

text \<open>
  A second, minimal runtime: its components have no ports to discover, every query of a
  port or a state reports what the last command asked for, the device number callback is
  delivered before \<open>OMX_SetParameter\<close> returns, the display is 1920 by 1080, and nothing
  else is ever delivered. Its state is the enabled flag and the state last commanded.
\<close>

definition plain_portdef :: "u32 \<Rightarrow> bool \<Rightarrow> OMX_PARAM_PORTDEFINITIONTYPE" where
  "plain_portdef p b = (mock_default_portdef p)\<lparr>bEnabled := b, eDomain := OMX_PortDomainOther\<rparr>"

fun plain_call :: "call \<Rightarrow> bool \<times> OMX_STATETYPE \<Rightarrow> u32 \<times> async list \<times> (bool \<times> OMX_STATETYPE)" where
  "plain_call (OMX_SendCommand h (OMX_CommandStateSet st)) (b, s) = (0, [], (b, st))"
| "plain_call (OMX_SendCommand h (OMX_CommandPortDisable p)) (b, s) = (0, [], (False, s))"
| "plain_call (OMX_SendCommand h (OMX_CommandPortEnable p)) (b, s) = (0, [], (True, s))"
| "plain_call (OMX_SetParameter h (IndexParamCameraDeviceNumber p n)) (b, s) =
     (0, [Event h OMX_EventParamOrConfigChanged p mock_index_camera_device_number], (b, s))"
| "plain_call c (b, s) = (0, [], (b, s))"

definition plain_rt :: "(bool \<times> OMX_STATETYPE) runtime" where
  "plain_rt =
     \<lparr>rt_call = plain_call,
      rt_get_handle = (\<lambda>name cb s. ((0, of_nat (length name)), [], s)),
      rt_get_ports = (\<lambda>h t s. ((0, \<lparr>nPorts = 0, nStartPortNumber = 0\<rparr>), [], s)),
      rt_get_portdef = (\<lambda>h p s. ((0, plain_portdef p (fst s)), [], s)),
      rt_get_state = (\<lambda>h s. ((0, snd s), [], s)),
      rt_allocate_buffer = (\<lambda>h p n s. ((0, 0x1000), [], s)),
      rt_display_size = (\<lambda>d s. ((0, 1920, 1080), [], s)),
      OMX_IndexParamCameraDeviceNumber = mock_index_camera_device_number\<rparr>"

text \<open>The run of the minimal runtime up to the start of the capture.\<close>

definition plain_startup :: "(bool \<times> OMX_STATETYPE) res" where
  "plain_startup =
     run_steps (main_until_capture plain_rt benign 1) (initial_world benign (False, OMX_StateLoaded))"

text \<open>
  Runs of the first runtime: from the display query to the write of the preview port; and
  from the fetch for the preview port to the frame rate settings, \<open>main\<close> holding a
  display size of 1920 by 1080.
\<close>

definition mock_preview :: "mock res" where
  "mock_preview =
     run_steps (main_display_size mock_rt @ main_camera_setup mock_rt @ main_preview_port mock_rt)
       (initial_world benign mock_start)"


section \<open>Reading the log\<close>

text \<open>The calls of the OpenMAX IL interface in a log, without the sleeps, the other system calls and what was delivered.\<close>

fun is_omx :: "entry \<Rightarrow> bool" where
  "is_omx (Call (OMX_SetParameter h x) r) = True"
| "is_omx (Call (OMX_SetConfig h x) r) = True"
| "is_omx (Call (OMX_SendCommand h c) r) = True"
| "is_omx (Call (OMX_SetupTunnel h p h' p') r) = True"
| "is_omx (Call (OMX_FreeBuffer h p b) r) = True"
| "is_omx (Call (OMX_FreeHandle h) r) = True"
| "is_omx (Call OMX_Init r) = True"
| "is_omx (Call OMX_Deinit r) = True"
| "is_omx (Call c r) = False"
| "is_omx (DisplaySize d x) = False"
| "is_omx (Async a) = False"
| "is_omx e = True"

definition omx_calls :: "entry list \<Rightarrow> entry list" where
  "omx_calls es = filter is_omx es"

text \<open>
  What a stretch of the log is expected to hold, item by item: one accepted call; or the
  polls of one state, or of the enabled flag of one port, up to and including the first
  one that reports the value waited for; or one successful query of a port definition; or
  one successful allocation.
\<close>

datatype item =
    Cmd call
  | StateWait OMX_HANDLETYPE OMX_STATETYPE
  | PortWait OMX_HANDLETYPE u32 bool
  | Fetch OMX_HANDLETYPE u32
  | Alloc OMX_HANDLETYPE u32

fun accepts :: "item list \<Rightarrow> entry list \<Rightarrow> bool" where
  "accepts [] es = (es = [])"
| "accepts (Cmd c # its) (Call c' r # es) = (c' = c \<and> r = OMX_ErrorNone \<and> accepts its es)"
| "accepts (StateWait h s # its) (GetState h' (r, s') # es) =
     (h' = h \<and> (if s' = s then accepts its es else accepts (StateWait h s # its) es))"
| "accepts (PortWait h p b # its) (GetPortDef h' p' (r, d) # es) =
     (h' = h \<and> p' = p \<and> r = OMX_ErrorNone \<and>
      (if bEnabled d = b then accepts its es else accepts (PortWait h p b # its) es))"
| "accepts (Fetch h p # its) (GetPortDef h' p' (r, d) # es) =
     (h' = h \<and> p' = p \<and> r = OMX_ErrorNone \<and> accepts its es)"
| "accepts (Alloc h p # its) (AllocateBuffer h' p' n (r, b) # es) =
     (h' = h \<and> p' = p \<and> r = OMX_ErrorNone \<and> accepts its es)"
| "accepts its es = False"

text \<open>
  The startup order of the specification (section 4.4, steps 1 to 5), for the handles of
  the camera, the render and the null sink.
\<close>

definition startup_sequence :: "OMX_HANDLETYPE \<Rightarrow> OMX_HANDLETYPE \<Rightarrow> OMX_HANDLETYPE \<Rightarrow> item list" where
  "startup_sequence cam ren snk =
     [Cmd (OMX_SendCommand cam (OMX_CommandStateSet OMX_StateIdle)), StateWait cam OMX_StateIdle,
      Cmd (OMX_SendCommand ren (OMX_CommandStateSet OMX_StateIdle)), StateWait ren OMX_StateIdle,
      Cmd (OMX_SendCommand snk (OMX_CommandStateSet OMX_StateIdle)), StateWait snk OMX_StateIdle,
      Cmd (OMX_SendCommand cam (OMX_CommandPortEnable 73)), PortWait cam 73 True,
      Cmd (OMX_SendCommand cam (OMX_CommandPortEnable 70)), PortWait cam 70 True,
      Cmd (OMX_SendCommand cam (OMX_CommandPortEnable 71)), PortWait cam 71 True,
      Cmd (OMX_SendCommand ren (OMX_CommandPortEnable 90)), PortWait ren 90 True,
      Cmd (OMX_SendCommand snk (OMX_CommandPortEnable 240)), PortWait snk 240 True,
      Fetch cam 73, Alloc cam 73,
      Cmd (OMX_SendCommand cam (OMX_CommandStateSet OMX_StateExecuting)),
      StateWait cam OMX_StateExecuting,
      Cmd (OMX_SendCommand ren (OMX_CommandStateSet OMX_StateExecuting)),
      StateWait ren OMX_StateExecuting,
      Cmd (OMX_SendCommand snk (OMX_CommandStateSet OMX_StateExecuting)),
      StateWait snk OMX_StateExecuting,
      Cmd (OMX_SetParameter cam (IndexConfigPortCapturing 71 True))]"

text \<open>Entries that belong to the startup: state and port-enable commands, allocation, capture.\<close>

fun is_startup_command :: "entry \<Rightarrow> bool" where
  "is_startup_command (Call (OMX_SendCommand h (OMX_CommandStateSet s)) r) = True"
| "is_startup_command (Call (OMX_SendCommand h (OMX_CommandPortEnable p)) r) = True"
| "is_startup_command (Call (OMX_SetParameter h (IndexConfigPortCapturing p b)) r) = True"
| "is_startup_command (AllocateBuffer h p n x) = True"
| "is_startup_command e = False"

text \<open>
  What a log says about the enabled flag of one port of one component: nothing yet; a
  command to enable or disable it was accepted and the runtime has not reported the new
  value since; or the latest report since the latest command is the commanded value.
\<close>

datatype port_status = Untouched | Commanded bool | Confirmed bool

fun track :: "OMX_HANDLETYPE \<Rightarrow> u32 \<Rightarrow> port_status \<Rightarrow> entry \<Rightarrow> port_status" where
  "track h p st (Call (OMX_SendCommand h' (OMX_CommandPortDisable p')) r) =
     (if h' = h \<and> p' = p \<and> r = OMX_ErrorNone then Commanded False else st)"
| "track h p st (Call (OMX_SendCommand h' (OMX_CommandPortEnable p')) r) =
     (if h' = h \<and> p' = p \<and> r = OMX_ErrorNone then Commanded True else st)"
| "track h p st (GetPortDef h' p' (r, d)) =
     (if h' = h \<and> p' = p \<and> r = OMX_ErrorNone
      then (case st of
              Untouched \<Rightarrow> Untouched
            | Commanded b \<Rightarrow> (if bEnabled d = b then Confirmed b else Commanded b)
            | Confirmed b \<Rightarrow> (if bEnabled d = b then Confirmed b else Commanded b))
      else st)"
| "track h p st e = st"

definition port_status_of :: "OMX_HANDLETYPE \<Rightarrow> u32 \<Rightarrow> entry list \<Rightarrow> port_status" where
  "port_status_of h p es = foldl (track h p) Untouched es"

text \<open>The probes of the port categories in a log, and a log from its first probe on.\<close>

fun is_probe :: "entry \<Rightarrow> bool" where
  "is_probe (GetPorts h t x) = True"
| "is_probe e = False"

fun probe_index :: "entry \<Rightarrow> OMX_INDEXTYPE option" where
  "probe_index (GetPorts h t x) = Some t"
| "probe_index e = None"

fun is_display_size :: "entry \<Rightarrow> bool" where
  "is_display_size (DisplaySize d x) = True"
| "is_display_size e = False"

text \<open>The callback that announces the camera device number, for the index \<open>idx\<close>.\<close>

fun is_camera_ready_event :: "u32 \<Rightarrow> entry \<Rightarrow> bool" where
  "is_camera_ready_event idx (Async (Event h OMX_EventParamOrConfigChanged n1 n2)) = (n2 = idx)"
| "is_camera_ready_event idx e = False"

text \<open>The flush commands and the flush completions in a log.\<close>

fun is_flush :: "entry \<Rightarrow> bool" where
  "is_flush (Call (OMX_SendCommand h (OMX_CommandFlush p)) r) = True"
| "is_flush (Async (Event h OMX_EventCmdComplete n1 n2)) = (n1 = OMX_CommandFlush_code)"
| "is_flush e = False"

text \<open>
  How a run may end with status 1. Either the last call in the log was refused and
  nothing but deliveries follows it, or the log ends with an error event.
\<close>

fun refused :: "entry \<Rightarrow> bool" where
  "refused (Call vcos_semaphore_create r) = (r \<noteq> 0)"
| "refused (Call (calloc n m) r) = (r = 0)"
| "refused (Call (usleep n) r) = False"
| "refused (Call c r) = (r \<noteq> OMX_ErrorNone)"
| "refused (GetHandle n cb (r, h)) = (r \<noteq> OMX_ErrorNone)"
| "refused (GetPorts h t (r, x)) = False"
| "refused (GetPortDef h p (r, d)) = (r \<noteq> OMX_ErrorNone)"
| "refused (GetState h (r, s)) = False"
| "refused (AllocateBuffer h p n (r, b)) = (r \<noteq> OMX_ErrorNone)"
| "refused (DisplaySize d (rc, x, y)) = (rc < 0)"
| "refused (Async a) = False"

fun is_async :: "entry \<Rightarrow> bool" where
  "is_async (Async a) = True"
| "is_async e = False"

fun is_error_event :: "entry \<Rightarrow> bool" where
  "is_error_event (Async (Event h OMX_EventError n1 n2)) = True"
| "is_error_event e = False"

definition ends_refused :: "entry list \<Rightarrow> bool" where
  "ends_refused es =
     (case dropWhile is_async (rev es) of [] \<Rightarrow> False | e # _ \<Rightarrow> refused e)"

definition ends_with_error_event :: "entry list \<Rightarrow> bool" where
  "ends_with_error_event es = (case rev es of [] \<Rightarrow> False | e # _ \<Rightarrow> is_error_event e)"

text \<open>The line \<open>omx_die\<close> prints for an error code and a message.\<close>

definition omx_error_line :: "OMX_ERRORTYPE \<Rightarrow> string \<Rightarrow> string" where
  "omx_error_line error msg =
     ''OMX error: '' @ msg @ '': 0x'' @ fmt_08x error @ '' '' @ error_description error
     @ [CHR 0x0A]"

text \<open>
  Two states agree on what only \<open>main\<close> itself writes: the handles and the buffer pointer
  in the context, the locals, and the signal dispositions. Callbacks and signals leave
  these alone.
\<close>

definition quiet :: "'r world \<Rightarrow> 'r world \<Rightarrow> bool" where
  "quiet w w' =
     (camera (ctx w') = camera (ctx w) \<and> render (ctx w') = render (ctx w)
      \<and> null_sink (ctx w') = null_sink (ctx w)
      \<and> camera_ppBuffer_in (ctx w') = camera_ppBuffer_in (ctx w)
      \<and> callbacks w' = callbacks w \<and> screen_width w' = screen_width w
      \<and> screen_height w' = screen_height w \<and> camera_portdef w' = camera_portdef w
      \<and> handled w' = handled w)"

text \<open>A step that, when it returns, has only added entries that satisfy \<open>Q\<close> to the log.\<close>

definition adds :: "(entry \<Rightarrow> bool) \<Rightarrow> 'r step \<Rightarrow> bool" where
  "adds Q a =
     (\<forall>w w'. a w = Running w' \<longrightarrow>
        quiet w w' \<and> (\<exists>seg. trace w' = trace w @ seg \<and> list_all Q seg))"

text \<open>The state a run stands in, and whether it is still running.\<close>

fun the_world :: "'r res \<Rightarrow> 'r world" where
  "the_world (Running w) = w"
| "the_world (Stop st w) = w"

fun is_running :: "'r res \<Rightarrow> bool" where
  "is_running (Running w) = True"
| "is_running (Stop st w) = False"

text \<open>
  A property of states that survives a call being logged and anything being delivered
  (\<open>robust\<close>), and a step that, from a state with the property \<open>I\<close>, returns only in a
  state with \<open>I\<close>, having added to the log a stretch that satisfies \<open>L\<close>.
\<close>

definition robust :: "'r runtime \<Rightarrow> ('r world \<Rightarrow> bool) \<Rightarrow> bool" where
  "robust rt I =
     ((\<forall>w s e. I w \<longrightarrow> I (w\<lparr>rts := s, trace := trace w @ [e]\<rparr>))
      \<and> (\<forall>a w w'. I w \<longrightarrow> deliver1 rt a w = Running w' \<longrightarrow> I w'))"

definition spec :: "('r world \<Rightarrow> bool) \<Rightarrow> (entry list \<Rightarrow> bool) \<Rightarrow> 'r step \<Rightarrow> bool" where
  "spec I L a =
     (\<forall>w w'. I w \<longrightarrow> a w = Running w' \<longrightarrow> I w' \<and> (\<exists>seg. trace w' = trace w @ seg \<and> L seg))"

text \<open>The handles in the context are the given ones.\<close>

definition handles :: "OMX_HANDLETYPE \<Rightarrow> OMX_HANDLETYPE \<Rightarrow> OMX_HANDLETYPE \<Rightarrow> 'r world \<Rightarrow> bool" where
  "handles cam ren snk w =
     (camera (ctx w) = cam \<and> render (ctx w) = ren \<and> null_sink (ctx w) = snk)"

text \<open>Once \<open>camera_ready\<close> is set, the log holds the callback that set it.\<close>

definition camera_ready_logged :: "u32 \<Rightarrow> 'r world \<Rightarrow> bool" where
  "camera_ready_logged idx w =
     (camera_ready (ctx w) \<noteq> 0 \<longrightarrow> list_ex (is_camera_ready_event idx) (trace w))"

text \<open>A property of states that depends on the log and on \<open>camera_ready\<close> only.\<close>

definition flag_based :: "('r world \<Rightarrow> bool) \<Rightarrow> bool" where
  "flag_based I =
     (\<forall>w w'. trace w' = trace w \<longrightarrow> camera_ready (ctx w') = camera_ready (ctx w) \<longrightarrow> I w \<longrightarrow> I w')"

section \<open>Component names\<close>

lemma c_string_no_NUL: "NUL \<notin> set s \<Longrightarrow> c_string s = s"
  by (auto simp: c_string_def)

lemma c_string_pad: "NUL \<notin> set s \<Longrightarrow> c_string (s @ NUL # r) = s"
  by (induction s) (auto simp: c_string_def)

lemma NUL_notin_c_string: "NUL \<notin> set (c_string s)"
  by (auto simp: c_string_def dest: set_takeWhileD)

lemma c_strncat_pad:
  assumes "NUL \<notin> set p" and "length (take n (c_string src)) < m"
  shows "c_strncat (p @ replicate m NUL) src n =
           p @ take n (c_string src) @ replicate (m - length (take n (c_string src))) NUL"
proof -
  define s where "s = take n (c_string src)"
  obtain m' where m: "m = Suc m'" using assms(2) by (cases m) auto
  have "c_string (p @ replicate m NUL) = p"
    unfolding m using c_string_pad[OF assms(1)] by simp
  then have k: "c_strlen (p @ replicate m NUL) = length p"
    by (simp add: c_strlen_def)
  have "replicate (m - length s) NUL = NUL # replicate (m - Suc (length s)) NUL"
    using assms(2) unfolding s_def[symmetric] by (cases "m - length s") (auto simp: Suc_diff_Suc)
  then show ?thesis
    unfolding c_strncat_def k Let_def s_def[symmetric] by simp
qed

lemma fullname_generic:
  assumes "NUL \<notin> set p" and "length p = 13"
  shows "c_strncat (c_strcat (memset_zero 32) p) name (c_strlen (c_strcat (memset_zero 32) p) - 1) =
           p @ take 12 (c_string name) @ replicate (19 - length (take 12 (c_string name))) NUL"
proof -
  have cp: "c_string p = p"
    using assms(1) by (rule c_string_no_NUL)
  have "c_strncat ([] @ replicate 32 NUL) p (length p) =
          [] @ take (length p) (c_string p) @ replicate (32 - length (take (length p) (c_string p))) NUL"
    by (rule c_strncat_pad) (simp_all add: cp assms(2))
  then have buf: "c_strcat (memset_zero 32) p = p @ replicate 19 NUL"
    by (simp add: c_strcat_def memset_zero_def cp assms(2))
  have "replicate 19 NUL = NUL # replicate 18 NUL"
    by (simp add: numeral_eq_Suc)
  then have "c_string (p @ replicate 19 NUL) = p"
    using c_string_pad[OF assms(1), of "replicate 18 NUL"] by simp
  then have k: "c_strlen (p @ replicate 19 NUL) - 1 = 12"
    by (simp add: c_strlen_def assms(2))
  show ?thesis
    unfolding buf k by (rule c_strncat_pad[OF assms(1)]) simp
qed

lemma prefix_NUL: "NUL \<notin> set ''OMX.broadcom.''"
  by (simp add: NUL_def)

lemma component_fullname_buf_eq:
  "component_fullname_buf name =
     ''OMX.broadcom.'' @ take 12 (c_string name) @ replicate (19 - length (take 12 (c_string name))) NUL"
  unfolding component_fullname_buf_def Let_def
  by (rule fullname_generic[OF prefix_NUL]) simp

lemma component_fullname_eq:
  "component_fullname name = ''OMX.broadcom.'' @ take 12 (c_string name)"
proof -
  have n: "NUL \<notin> set (''OMX.broadcom.'' @ take 12 (c_string name))"
    using NUL_notin_c_string[of name] prefix_NUL by (auto dest: in_set_takeD)
  have "19 - length (take 12 (c_string name)) = Suc (18 - length (take 12 (c_string name)))"
    by simp
  then show ?thesis
    unfolding component_fullname_def component_fullname_buf_eq
    using c_string_pad[OF n, of "replicate (18 - length (take 12 (c_string name))) NUL"]
    by simp
qed

lemma program_fullnames:
  "component_fullname ''camera'' = ''OMX.broadcom.camera''"
  "component_fullname ''video_render'' = ''OMX.broadcom.video_render''"
  "component_fullname ''null_sink'' = ''OMX.broadcom.null_sink''"
  by (simp_all add: component_fullname_eq c_string_def NUL_def)

text \<open>
  C10. The name handed to the runtime is the 13 characters \<open>OMX.broadcom.\<close> followed by
  at most the first 12 characters of the given name, and it fits the 32 byte buffer. A
  name of 12 characters or fewer is appended in full, a longer one is cut to its first
  12 characters; the three names the program uses are appended in full.
\<close>

theorem fullname_prefix_and_truncation:
  "length ''OMX.broadcom.'' = 13
   \<and> length (component_fullname_buf name) = 32
   \<and> component_fullname name = ''OMX.broadcom.'' @ take 12 (c_string name)
   \<and> (NUL \<notin> set name \<and> length name \<le> 12 \<longrightarrow>
        component_fullname name = ''OMX.broadcom.'' @ name)
   \<and> (NUL \<notin> set name \<and> 12 < length name \<longrightarrow>
        component_fullname name = ''OMX.broadcom.'' @ take 12 name
        \<and> length (component_fullname name) = 25)
   \<and> component_fullname ''camera'' = ''OMX.broadcom.camera''
   \<and> component_fullname ''video_render'' = ''OMX.broadcom.video_render''
   \<and> component_fullname ''null_sink'' = ''OMX.broadcom.null_sink''"
proof -
  have a: "length (component_fullname_buf name) = 32"
    unfolding component_fullname_buf_eq by simp
  have b: "NUL \<notin> set name \<Longrightarrow> c_string name = name"
    by (rule c_string_no_NUL)
  have c: "c_string ''camera'' = ''camera''" "c_string ''video_render'' = ''video_render''"
    "c_string ''null_sink'' = ''null_sink''"
    by (simp_all add: c_string_def NUL_def)
  show ?thesis
    using a b by (simp add: component_fullname_eq c)
qed

theorem fullname_prefix_and_truncation_witness:
  "component_fullname ''video_render'' = ''OMX.broadcom.video_render''
   \<and> component_fullname ''video_renderer_2'' = ''OMX.broadcom.video_render''
   \<and> length (component_fullname ''video_renderer_2'') = 25"
proof -
  have n1: "NUL \<notin> set ''video_render'' \<and> length ''video_render'' \<le> 12"
    by (simp add: NUL_def)
  have n2: "NUL \<notin> set ''video_renderer_2'' \<and> 12 < length ''video_renderer_2''"
    by (simp add: NUL_def)
  have t: "take 12 ''video_renderer_2'' = ''video_render''"
    by simp
  have c: "c_string ''video_renderer_2'' = ''video_renderer_2''"
    "c_string ''video_render'' = ''video_render''"
    using n1 n2 by (simp_all add: c_string_no_NUL)
  show ?thesis
    using fullname_prefix_and_truncation[of "''video_render''"]
      fullname_prefix_and_truncation[of "''video_renderer_2''"] n1 n2 t c
    by simp
qed

section \<open>Sequencing\<close>

lemma quiet_refl [simp]: "quiet w w"
  by (simp add: quiet_def)

lemma quiet_trans: "quiet w w1 \<Longrightarrow> quiet w1 w2 \<Longrightarrow> quiet w w2"
  by (simp add: quiet_def)

lemma seq_Running:
  "seq a b w = Running w' \<longleftrightarrow> (\<exists>w1. a w = Running w1 \<and> b w1 = Running w')"
  by (simp add: seq_def split: res.splits)

lemma seq_Stop:
  "seq a b w = Stop st w' \<longleftrightarrow> a w = Stop st w' \<or> (\<exists>w1. a w = Running w1 \<and> b w1 = Stop st w')"
  by (auto simp: seq_def split: res.splits)

lemma run_steps_Cons_Running:
  "run_steps (a # as) w = Running w' \<longleftrightarrow> (\<exists>w1. a w = Running w1 \<and> run_steps as w1 = Running w')"
  by (simp split: res.splits)

lemma run_steps_Cons_Stop:
  "run_steps (a # as) w = Stop st w' \<longleftrightarrow>
     a w = Stop st w' \<or> (\<exists>w1. a w = Running w1 \<and> run_steps as w1 = Stop st w')"
  by (auto split: res.splits)

lemma run_steps_append_Running:
  "run_steps (as @ bs) w = Running w' \<longleftrightarrow>
     (\<exists>w1. run_steps as w = Running w1 \<and> run_steps bs w1 = Running w')"
  by (induction as arbitrary: w) (auto split: res.splits)

lemma run_steps_append_Stop:
  "run_steps (as @ bs) w = Stop st w' \<longleftrightarrow>
     run_steps as w = Stop st w' \<or> (\<exists>w1. run_steps as w = Running w1 \<and> run_steps bs w1 = Stop st w')"
  by (induction as arbitrary: w) (auto split: res.splits)

lemma assign_Running: "assign f w = Running w' \<longleftrightarrow> w' = f w"
  by (auto simp: assign_def)

lemma say_Running: "say msg w = Running w' \<longleftrightarrow> w' = say_w msg w"
  by (auto simp: say_def assign_def)

lemma say_w_simps [simp]:
  "trace (say_w msg w) = trace w" "ctx (say_w msg w) = ctx w" "rts (say_w msg w) = rts w"
  "quiet w (say_w msg w)" "want_quit (say_w msg w) = want_quit w"
  "err_out (say_w msg w) = err_out w @ [Text (say_text msg)]"
  "camera_portdef (say_w msg w) = camera_portdef w"
  "screen_width (say_w msg w) = screen_width w" "screen_height (say_w msg w) = screen_height w"
  "callbacks (say_w msg w) = callbacks w"
  by (simp_all add: say_w_def quiet_def)

lemma die_Stop: "die msg w = Stop (Exit 1) (say_w (take 1023 (c_string msg)) w)"
  by (simp add: die_def)

lemma die_not_Running [simp]: "die msg w \<noteq> Running w'"
  by (simp add: die_def)

lemma omx_die_not_Running [simp]: "omx_die e msg w \<noteq> Running w'"
  by (simp add: omx_die_def Let_def)

section \<open>Deliveries\<close>

lemma event_handler_Running:
  "event_handler rt h ev n1 n2 w = Running w' \<Longrightarrow>
     trace w' = trace w \<and> quiet w w' \<and> rts w' = rts w"
  by (auto simp: event_handler_def dump_event_def Let_def quiet_def split: OMX_EVENTTYPE.splits if_splits)

lemma signal_handler_Running:
  "signal_handler sig w = Running w' \<Longrightarrow> trace w' = trace w \<and> quiet w w' \<and> rts w' = rts w"
  by (auto simp: signal_handler_def quiet_def split: if_splits)

lemma deliver1_Running:
  "deliver1 rt a w = Running w' \<Longrightarrow>
     trace w' = trace w @ [Async a] \<and> quiet w w' \<and> rts w' = rts w"
  by (cases a)
     (auto simp: deliver1_def Let_def quiet_def dest!: event_handler_Running signal_handler_Running)

lemma deliver_Running:
  "deliver rt evs w = Running w' \<Longrightarrow>
     trace w' = trace w @ map Async evs \<and> quiet w w' \<and> rts w' = rts w"
proof (induction evs arbitrary: w)
  case Nil
  then show ?case by (simp add: deliver_def)
next
  case (Cons a evs)
  from Cons.prems obtain w1 where a: "deliver1 rt a w = Running w1"
    and r: "deliver rt evs w1 = Running w'"
    by (auto simp: deliver_def run_steps_Cons_Running simp del: run_steps.simps(2))
  from deliver1_Running[OF a] Cons.IH[OF r] show ?case
    by (auto intro: quiet_trans)
qed

lemma perform_Running:
  assumes "perform rt act log k w = Running w'"
  shows "\<exists>a evs s w1. act (rts w) = (a, evs, s) \<and> trace w1 = trace w @ log a # map Async evs
           \<and> quiet w w1 \<and> rts w1 = s \<and> k a w1 = Running w'"
proof -
  obtain a evs s where act: "act (rts w) = (a, evs, s)"
    by (cases "act (rts w)") auto
  with assms obtain w1 where
    d: "deliver rt evs (w\<lparr>rts := s, trace := trace w @ [log a]\<rparr>) = Running w1"
    and k: "k a w1 = Running w'"
    by (auto simp: perform_def seq_Running)
  from deliver_Running[OF d] have "trace w1 = trace w @ log a # map Async evs"
    "quiet w w1" "rts w1 = s"
    by (auto simp: quiet_def)
  with act k show ?thesis by blast
qed

lemma omx_or_die_Running:
  assumes "omx_or_die rt c msg w = Running w'"
  shows "\<exists>evs. trace w' = trace w @ Call c OMX_ErrorNone # map Async evs \<and> quiet w w'"
proof -
  from assms obtain a evs s w1 where
    "trace w1 = trace w @ Call c a # map Async evs" "quiet w w1"
    "(if a \<noteq> OMX_ErrorNone then omx_die a msg else Running) w1 = Running w'"
    unfolding omx_or_die_def do_call_def by (blast dest: perform_Running)
  then show ?thesis
    by (cases "a = OMX_ErrorNone") auto
qed

lemma call_ignored_Running:
  assumes "call_ignored rt c w = Running w'"
  shows "\<exists>r evs. trace w' = trace w @ Call c r # map Async evs \<and> quiet w w'"
  using assms unfolding call_ignored_def do_call_def
  by (blast dest: perform_Running)

lemma addsI:
  "(\<And>w w'. a w = Running w' \<Longrightarrow> quiet w w' \<and> (\<exists>seg. trace w' = trace w @ seg \<and> list_all Q seg)) \<Longrightarrow> adds Q a"
  by (simp add: adds_def)

lemma addsD:
  "adds Q a \<Longrightarrow> a w = Running w' \<Longrightarrow> quiet w w' \<and> (\<exists>seg. trace w' = trace w @ seg \<and> list_all Q seg)"
  by (simp add: adds_def)

lemma adds_Running [simp]: "adds Q Running"
  by (rule addsI) auto

lemma adds_say [simp]: "adds Q (say msg)"
  by (rule addsI) (auto simp: say_Running)

lemma adds_seq:
  assumes "adds Q a" and "adds Q b"
  shows "adds Q (seq a b)"
proof (rule addsI)
  fix w w' assume "seq a b w = Running w'"
  then obtain w1 where a: "a w = Running w1" and b: "b w1 = Running w'"
    by (auto simp: seq_Running)
  from addsD[OF assms(1) a] addsD[OF assms(2) b]
  show "quiet w w' \<and> (\<exists>seg. trace w' = trace w @ seg \<and> list_all Q seg)"
    by (auto intro: quiet_trans)
qed

lemma adds_if: "adds Q a \<Longrightarrow> adds Q b \<Longrightarrow> adds Q (if c then a else b)"
  by simp

lemma adds_die [simp]: "adds Q (die m)" "adds Q (omx_die e m)"
  by (rule addsI, simp)+

lemma adds_perform:
  assumes "\<And>x. Q (log x)" and "\<And>a. Q (Async a)" and "\<And>x. adds Q (k x)"
  shows "adds Q (perform rt act log k)"
proof (rule addsI)
  fix w w' assume "perform rt act log k w = Running w'"
  then obtain a evs s w1 where w1: "trace w1 = trace w @ log a # map Async evs" "quiet w w1"
    and k: "k a w1 = Running w'"
    by (blast dest: perform_Running)
  from addsD[OF assms(3) k] obtain seg where "quiet w1 w'" "trace w' = trace w1 @ seg" "list_all Q seg"
    by blast
  with w1 assms(1,2) show "quiet w w' \<and> (\<exists>seg. trace w' = trace w @ seg \<and> list_all Q seg)"
    by (auto intro: quiet_trans simp: list_all_iff)
qed

lemma adds_do_call:
  assumes "\<And>r. Q (Call c r)" and "\<And>a. Q (Async a)" and "\<And>r. adds Q (k r)"
  shows "adds Q (do_call rt c k)"
  unfolding do_call_def by (rule adds_perform) (use assms in auto)

lemma adds_omx_or_die:
  assumes "\<And>r. Q (Call c r)" and "\<And>a. Q (Async a)"
  shows "adds Q (omx_or_die rt c msg)"
  unfolding omx_or_die_def by (rule adds_do_call) (use assms in auto)

lemma adds_call_ignored:
  assumes "\<And>r. Q (Call c r)" and "\<And>a. Q (Async a)"
  shows "adds Q (call_ignored rt c)"
  unfolding call_ignored_def by (rule adds_do_call) (use assms in auto)

lemma adds_put_out [simp]: "adds Q (put_out x)"
  by (rule addsI) (auto simp: put_out_def assign_Running quiet_def)

lemma adds_dump_port:
  assumes "\<And>r. Q (GetPortDef h p r)" and "\<And>a. Q (Async a)" and "\<And>n m r. Q (Call (calloc n m) r)"
  shows "adds Q (dump_port rt h p)"
proof -
  have c: "adds Q (dump_color_format rt c)" for c
    unfolding dump_color_format_def by (auto intro!: adds_do_call assms)
  have d: "adds Q (dump_portdef rt d)" for d
    unfolding dump_portdef_def by (cases "eDomain d") (auto intro!: adds_seq c)
  show ?thesis
    unfolding dump_port_def by (rule adds_perform) (auto intro: assms d)
qed


lemma adds_reading: "(\<And>w. adds Q (f w)) \<Longrightarrow> adds Q (reading f)"
  by (simp add: adds_def reading_def)

lemma run_steps_adds:
  "list_all (adds Q) as \<Longrightarrow> adds Q (run_steps as)"
proof (induction as)
  case Nil
  show ?case by (rule addsI) auto
next
  case (Cons a as)
  then have a: "adds Q a" and as: "adds Q (run_steps as)" by auto
  have "run_steps (a # as) = seq a (run_steps as)"
    by (rule ext) (simp add: seq_def)
  with adds_seq[OF a as] show ?case by simp
qed

section \<open>Port definitions of the camera\<close>

lemma get_camera_portdef_Running:
  assumes "get_camera_portdef rt p msg w = Running w'"
  shows "\<exists>d evs. trace w' = trace w @ GetPortDef (camera (ctx w)) p (OMX_ErrorNone, d) # map Async evs
           \<and> camera_portdef w' = d \<and> camera (ctx w') = camera (ctx w)
           \<and> screen_width w' = screen_width w \<and> screen_height w' = screen_height w"
proof -
  from assms obtain a evs s w1 where w1: "trace w1 = trace w @ GetPortDef (camera (ctx w)) p a # map Async evs"
    "quiet w w1"
    and k: "(case a of (r, portdef) \<Rightarrow>
          seq (assign (\<lambda>w. w\<lparr>camera_portdef := portdef\<rparr>))
              (if r \<noteq> OMX_ErrorNone then omx_die r msg else Running)) w1 = Running w'"
    unfolding get_camera_portdef_def reading_def by (blast dest: perform_Running)
  obtain r d where a: "a = (r, d)" by (cases a)
  from k have "r = OMX_ErrorNone" "w' = w1\<lparr>camera_portdef := d\<rparr>"
    unfolding a by (auto simp: seq_Running assign_Running split: if_splits)
  with w1 a show ?thesis
    by (auto simp: quiet_def)
qed

lemma set_camera_portdef_Running:
  assumes "set_camera_portdef rt msg w = Running w'"
  shows "\<exists>evs. trace w' = trace w @
            Call (OMX_SetParameter (camera (ctx w)) (IndexParamPortDefinition (camera_portdef w)))
              OMX_ErrorNone # map Async evs \<and> quiet w w'"
  using assms unfolding set_camera_portdef_def reading_def by (rule omx_or_die_Running)

lemma main_preview_port_Running:
  assumes "run_steps (main_preview_port rt) w = Running w'"
  shows "\<exists>d evs1 evs2.
     trace w' = trace w @ GetPortDef (camera (ctx w)) 70 (OMX_ErrorNone, d) # map Async evs1
       @ Call (OMX_SetParameter (camera (ctx w)) (IndexParamPortDefinition
            (d\<lparr>format := preview_format (screen_width w) (screen_height w) (format d)\<rparr>)))
           OMX_ErrorNone # map Async evs2
     \<and> camera (ctx w') = camera (ctx w)
     \<and> camera_portdef w' = d\<lparr>format := preview_format (screen_width w) (screen_height w) (format d)\<rparr>"
proof -
  from assms obtain w1 w2 where
    g: "get_camera_portdef rt 70 ''Failed to get port definition for camera preview output port 70'' w = Running w1"
    and a: "w2 = w1\<lparr>camera_portdef := (camera_portdef w1)
                \<lparr>format := preview_format (screen_width w1) (screen_height w1)
                             (format (camera_portdef w1))\<rparr>\<rparr>"
    and s: "set_camera_portdef rt ''Failed to set port definition for camera preview output port 70'' w2 = Running w'"
    unfolding main_preview_port_def
    by (auto simp: run_steps_Cons_Running assign_Running simp del: run_steps.simps(2))
  from get_camera_portdef_Running[OF g] obtain d evs1 where
    g': "trace w1 = trace w @ GetPortDef (camera (ctx w)) 70 (OMX_ErrorNone, d) # map Async evs1"
      "camera_portdef w1 = d" "camera (ctx w1) = camera (ctx w)"
      "screen_width w1 = screen_width w" "screen_height w1 = screen_height w"
    by blast
  from set_camera_portdef_Running[OF s] obtain evs2 where
    s': "trace w' = trace w2 @
            Call (OMX_SetParameter (camera (ctx w2)) (IndexParamPortDefinition (camera_portdef w2)))
              OMX_ErrorNone # map Async evs2" "quiet w2 w'"
    by blast
  show ?thesis
    by (intro exI[of _ d] exI[of _ evs1] exI[of _ evs2]) (use g' s' a in \<open>simp add: quiet_def\<close>)
qed


lemma preview_format_eq:
  "preview_format W H f =
     f\<lparr>nFrameWidth := W div 2, nFrameHeight := H div 2, xFramerate := 1638400, nStride := W div 2\<rparr>"
  by (simp add: preview_format_def image_nFrameWidth_def VIDEO_FRAMERATE_def Let_def)

lemma half_lt: "uint ((W :: 32 word) div 2) < 2 ^ 31"
proof -
  have "uint W < 2 ^ 32" using uint_lt2p[of W] by simp
  then show ?thesis by (simp add: uint_div)
qed

lemma sint_half: "sint ((W :: 32 word) div 2) = uint (W div 2)"
proof -
  have "signed_take_bit 31 (uint (W div 2)) = uint (W div 2)"
    by (rule signed_take_bit_int_eq_self) (use half_lt[of W] in \<open>auto intro: order_trans[of _ 0]\<close>)
  then show ?thesis by (simp add: sint_uint)
qed

section \<open>The port definitions of the two camera outputs\<close>

lemma main_display_size_Running:
  assumes "run_steps (main_display_size rt) w = Running w'"
  shows "\<exists>rc W H evs. trace w' = trace w @ DisplaySize DISPLAY_DEVICE (rc, W, H) # map Async evs
           \<and> screen_width w' = W \<and> screen_height w' = H \<and> camera (ctx w') = camera (ctx w)"
proof -
  let ?w0 = "w\<lparr>screen_width := 0, screen_height := 0\<rparr>"
  from assms have "perform rt (rt_display_size rt DISPLAY_DEVICE) (DisplaySize DISPLAY_DEVICE)
        (\<lambda>(rc, width, height).
           seq (assign (\<lambda>w. w\<lparr>screen_width := width, screen_height := height\<rparr>))
               (if rc < 0 then die ''Failed to get display size'' else Running)) ?w0 = Running w'"
    unfolding main_display_size_def
    by (auto simp: run_steps_Cons_Running assign_Running simp del: run_steps.simps(2))
  then obtain a evs s w1 where w1: "trace w1 = trace ?w0 @ DisplaySize DISPLAY_DEVICE a # map Async evs"
    "quiet ?w0 w1"
    and k: "(case a of (rc, width, height) \<Rightarrow>
           seq (assign (\<lambda>w. w\<lparr>screen_width := width, screen_height := height\<rparr>))
               (if rc < 0 then die ''Failed to get display size'' else Running)) w1 = Running w'"
    by (blast dest: perform_Running)
  obtain rc W H where a: "a = (rc, W, H)" by (cases a)
  from k have "w' = w1\<lparr>screen_width := W, screen_height := H\<rparr>"
    unfolding a by (auto simp: seq_Running assign_Running split: if_splits)
  with w1 a show ?thesis
    by (auto simp: quiet_def)
qed

lemma main_camera_setup_adds:
  assumes "\<And>h p r. Q (GetPortDef h p r)" and "\<And>a. Q (Async a)"
    and "\<And>n m r. Q (Call (calloc n m) r)"
    and "\<And>h x r. Q (Call (OMX_SetConfig h x) r)" and "\<And>h x r. Q (Call (OMX_SetParameter h x) r)"
  shows "adds Q (run_steps (main_camera_setup rt))"
  unfolding main_camera_setup_def
  by (rule run_steps_adds)
     (auto intro!: adds_reading adds_dump_port adds_omx_or_die assms)

text \<open>
  C5. From the display query to the write of the preview port: the log holds one display
  query, with result \<open>(rc, W, H)\<close>; the definition of port 70 is then fetched as \<open>d\<close> and
  written back as \<open>d\<close> with four members of its format replaced: the frame width by
  \<open>W / 2\<close>, the frame height by \<open>H / 2\<close>, the frame rate by 25 shifted left by 16 bits
  and the stride by the new frame width, which is the same number read as a signed
  stride. Every other member is the one fetched. For a 1920 by 1080 display the port is
  written as 960 by 540 with stride 960.
\<close>

theorem preview_port_read_modify_write:
  assumes "run_steps (main_display_size rt @ main_camera_setup rt @ main_preview_port rt) w = Running w'"
  shows "(\<exists>rc W H d pre evs1 evs2.
            trace w' = trace w @ pre
              @ GetPortDef (camera (ctx w)) 70 (OMX_ErrorNone, d) # map Async evs1
              @ Call (OMX_SetParameter (camera (ctx w)) (IndexParamPortDefinition
                   (d\<lparr>format := (format d)\<lparr>nFrameWidth := W div 2, nFrameHeight := H div 2,
                         xFramerate := push_bit 16 25, nStride := W div 2\<rparr>\<rparr>)))
                  OMX_ErrorNone # map Async evs2
            \<and> filter is_display_size pre = [DisplaySize DISPLAY_DEVICE (rc, W, H)]
            \<and> sint (W div 2) = uint (W div 2))
         \<and> preview_format 1920 1080 f =
             f\<lparr>nFrameWidth := 960, nFrameHeight := 540, xFramerate := 1638400, nStride := 960\<rparr>"
proof -
  from assms obtain w1 w2 where
    a: "run_steps (main_display_size rt) w = Running w1"
    and b: "run_steps (main_camera_setup rt) w1 = Running w2"
    and c: "run_steps (main_preview_port rt) w2 = Running w'"
    by (auto simp: run_steps_append_Running)
  from main_display_size_Running[OF a] obtain rc W H evs where
    a': "trace w1 = trace w @ DisplaySize DISPLAY_DEVICE (rc, W, H) # map Async evs"
      "screen_width w1 = W" "screen_height w1 = H" "camera (ctx w1) = camera (ctx w)"
    by blast
  have "adds (\<lambda>e. \<not> is_display_size e) (run_steps (main_camera_setup rt))"
    by (rule main_camera_setup_adds) auto
  from addsD[OF this b] obtain seg where
    b': "quiet w1 w2" "trace w2 = trace w1 @ seg" "list_all (\<lambda>e. \<not> is_display_size e) seg"
    by blast
  from main_preview_port_Running[OF c] obtain d evs1 evs2 where
    c': "trace w' = trace w2 @ GetPortDef (camera (ctx w2)) 70 (OMX_ErrorNone, d) # map Async evs1
       @ Call (OMX_SetParameter (camera (ctx w2)) (IndexParamPortDefinition
            (d\<lparr>format := preview_format (screen_width w2) (screen_height w2) (format d)\<rparr>)))
           OMX_ErrorNone # map Async evs2"
    by blast
  let ?pre = "DisplaySize DISPLAY_DEVICE (rc, W, H) # map Async evs @ seg"
  have f1: "filter is_display_size (map Async evs) = []"
    by (induction evs) auto
  have f2: "filter is_display_size seg = []"
    using b'(3) by (induction seg) auto
  have pre: "filter is_display_size ?pre = [DisplaySize DISPLAY_DEVICE (rc, W, H)]"
    by (simp add: f1 f2)
  have cam: "camera (ctx w2) = camera (ctx w)" "screen_width w2 = W" "screen_height w2 = H"
    using a' b'(1) by (simp_all add: quiet_def)
  have tr: "trace w' = trace w @ ?pre
              @ GetPortDef (camera (ctx w)) 70 (OMX_ErrorNone, d) # map Async evs1
              @ Call (OMX_SetParameter (camera (ctx w)) (IndexParamPortDefinition
                   (d\<lparr>format := (format d)\<lparr>nFrameWidth := W div 2, nFrameHeight := H div 2,
                         xFramerate := push_bit 16 25, nStride := W div 2\<rparr>\<rparr>)))
                  OMX_ErrorNone # map Async evs2"
    unfolding c' b'(2) a'(1) cam preview_format_eq by simp
  have "\<exists>rc W H d pre evs1 evs2.
            trace w' = trace w @ pre
              @ GetPortDef (camera (ctx w)) 70 (OMX_ErrorNone, d) # map Async evs1
              @ Call (OMX_SetParameter (camera (ctx w)) (IndexParamPortDefinition
                   (d\<lparr>format := (format d)\<lparr>nFrameWidth := W div 2, nFrameHeight := H div 2,
                         xFramerate := push_bit 16 25, nStride := W div 2\<rparr>\<rparr>)))
                  OMX_ErrorNone # map Async evs2
            \<and> filter is_display_size pre = [DisplaySize DISPLAY_DEVICE (rc, W, H)]
            \<and> sint (W div 2) = uint (W div 2)"
    by (intro exI[of _ rc] exI[of _ W] exI[of _ H] exI[of _ d] exI[of _ ?pre]
          exI[of _ evs1] exI[of _ evs2] conjI tr pre sint_half)
  moreover have "preview_format 1920 1080 f =
             f\<lparr>nFrameWidth := 960, nFrameHeight := 540, xFramerate := 1638400, nStride := 960\<rparr>"
    by (simp add: preview_format_eq)
  ultimately show ?thesis by blast
qed


section \<open>Steps and the stretch of the log they add\<close>

lemma specI:
  "(\<And>w w'. I w \<Longrightarrow> a w = Running w' \<Longrightarrow> I w' \<and> (\<exists>seg. trace w' = trace w @ seg \<and> L seg))
   \<Longrightarrow> spec I L a"
  by (simp add: spec_def)

lemma specD:
  "spec I L a \<Longrightarrow> I w \<Longrightarrow> a w = Running w' \<Longrightarrow> I w' \<and> (\<exists>seg. trace w' = trace w @ seg \<and> L seg)"
  by (simp add: spec_def)

lemma spec_weaken: "spec I L a \<Longrightarrow> (\<And>seg. L seg \<Longrightarrow> L' seg) \<Longrightarrow> spec I L' a"
  unfolding spec_def by blast

lemma spec_Running: "L [] \<Longrightarrow> spec I L Running"
  by (rule specI) auto

lemma spec_die [simp]: "spec I L (die m)" "spec I L (omx_die e m)"
  by (rule specI, simp)+

lemma spec_if: "spec I L a \<Longrightarrow> spec I L b \<Longrightarrow> spec I L (if c then a else b)"
  by simp

lemma spec_assign:
  assumes "\<And>w. I w \<Longrightarrow> I (f w)" and "\<And>w. trace (f w) = trace w" and "L []"
  shows "spec I L (assign f)"
  by (rule specI) (use assms in \<open>auto simp: assign_Running\<close>)

lemma spec_seq:
  assumes "spec I L1 a" and "spec I L2 b" and "\<And>s1 s2. L1 s1 \<Longrightarrow> L2 s2 \<Longrightarrow> L (s1 @ s2)"
  shows "spec I L (seq a b)"
proof (rule specI)
  fix w w' assume I: "I w" and "seq a b w = Running w'"
  then obtain w1 where a: "a w = Running w1" and b: "b w1 = Running w'"
    by (auto simp: seq_Running)
  from specD[OF assms(1) I a] obtain s1 where 1: "I w1" "trace w1 = trace w @ s1" "L1 s1"
    by blast
  from specD[OF assms(2) 1(1) b] obtain s2 where 2: "I w'" "trace w' = trace w1 @ s2" "L2 s2"
    by blast
  from 1 2 assms(3) have "trace w' = trace w @ (s1 @ s2) \<and> L (s1 @ s2)"
    by simp
  with 2(1) show "I w' \<and> (\<exists>seg. trace w' = trace w @ seg \<and> L seg)"
    by blast
qed

lemma spec_reading: "(\<And>w. I w \<Longrightarrow> spec I L (f w)) \<Longrightarrow> spec I L (reading f)"
  unfolding spec_def reading_def by blast

lemma robust_deliver:
  assumes "robust rt I" and "I w" and "deliver rt evs w = Running w'"
  shows "I w'"
  using assms(2,3)
proof (induction evs arbitrary: w)
  case Nil
  then show ?case by (simp add: deliver_def)
next
  case (Cons a evs)
  from Cons.prems(2) obtain w1 where a: "deliver1 rt a w = Running w1"
    and r: "deliver rt evs w1 = Running w'"
    by (auto simp: deliver_def run_steps_Cons_Running simp del: run_steps.simps(2))
  from assms(1) Cons.prems(1) a have "I w1"
    unfolding robust_def by blast
  then show ?case using r by (rule Cons.IH)
qed

lemma spec_perform:
  assumes rb: "robust rt I" and k: "\<And>x. spec I (Lk x) (k x)"
    and L: "\<And>x evs seg. Lk x seg \<Longrightarrow> L (log x # map Async evs @ seg)"
  shows "spec I L (perform rt act log k)"
proof (rule specI)
  fix w w' assume I: "I w" and p: "perform rt act log k w = Running w'"
  obtain a evs s where act: "act (rts w) = (a, evs, s)"
    by (cases "act (rts w)") auto
  with p obtain w1 where
    d: "deliver rt evs (w\<lparr>rts := s, trace := trace w @ [log a]\<rparr>) = Running w1"
    and ka: "k a w1 = Running w'"
    by (auto simp: perform_def seq_Running)
  from rb I have "I (w\<lparr>rts := s, trace := trace w @ [log a]\<rparr>)"
    unfolding robust_def by blast
  from robust_deliver[OF rb this d] have I1: "I w1" .
  from deliver_Running[OF d] have t1: "trace w1 = trace w @ log a # map Async evs"
    by simp
  from specD[OF k I1 ka] obtain seg where "I w'" "trace w' = trace w1 @ seg" "Lk a seg"
    by blast
  with t1 L[of a seg evs] show "I w' \<and> (\<exists>seg. trace w' = trace w @ seg \<and> L seg)"
    by auto
qed

lemma spec_do_call:
  assumes "robust rt I" and "\<And>r. spec I (Lk r) (k r)"
    and "\<And>r evs seg. Lk r seg \<Longrightarrow> L (Call c r # map Async evs @ seg)"
  shows "spec I L (do_call rt c k)"
  unfolding do_call_def using assms by (rule spec_perform)

lemma spec_omx_or_die:
  assumes "robust rt I" and "\<And>evs. L (Call c OMX_ErrorNone # map Async evs)"
  shows "spec I L (omx_or_die rt c msg)"
  unfolding omx_or_die_def
proof (rule spec_do_call[OF assms(1), where Lk = "\<lambda>r seg. r = OMX_ErrorNone \<and> seg = []"])
  show "spec I (\<lambda>seg. r = OMX_ErrorNone \<and> seg = []) (if r \<noteq> OMX_ErrorNone then omx_die r msg else Running)" for r
    by (auto intro: spec_Running)
  show "r = OMX_ErrorNone \<and> seg = [] \<Longrightarrow> L (Call c r # map Async evs @ seg)" for r evs seg
    using assms(2) by simp
qed

lemma spec_call_ignored:
  assumes "robust rt I" and "\<And>r evs. L (Call c r # map Async evs)"
  shows "spec I L (call_ignored rt c)"
  unfolding call_ignored_def
  by (rule spec_do_call[OF assms(1), where Lk = "\<lambda>r seg. seg = []"])
     (use assms(2) in \<open>auto intro: spec_Running\<close>)

lemma spec_run_steps_Nil: "L [] \<Longrightarrow> spec I L (run_steps [])"
  by (rule specI) auto

lemma spec_run_steps_Cons:
  assumes "spec I L1 a" and "spec I L2 (run_steps as)" and "\<And>s1 s2. L1 s1 \<Longrightarrow> L2 s2 \<Longrightarrow> L (s1 @ s2)"
  shows "spec I L (run_steps (a # as))"
proof -
  have e: "run_steps (a # as) = seq a (run_steps as)"
    by (rule ext) (simp add: seq_def)
  have "spec I L (seq a (run_steps as))"
    by (rule spec_seq[OF assms(1,2)]) (rule assms(3))
  then show ?thesis by (simp only: e)
qed

lemma spec_run_steps_all:
  assumes "list_all (spec I (list_all Q)) as"
  shows "spec I (list_all Q) (run_steps as)"
  using assms
proof (induction as)
  case Nil
  show ?case by (rule spec_run_steps_Nil) simp
next
  case (Cons a as)
  then show ?case
    by (intro spec_run_steps_Cons[where ?L1.0 = "list_all Q" and ?L2.0 = "list_all Q"]) auto
qed

lemma spec_put_out:
  assumes "\<And>w x. I w \<Longrightarrow> I (w\<lparr>err_out := x\<rparr>)" and "L []"
  shows "spec I L (put_out x)"
  unfolding put_out_def by (rule spec_assign) (use assms in auto)

lemma spec_say:
  assumes "\<And>w x. I w \<Longrightarrow> I (w\<lparr>err_out := x\<rparr>)" and "L []"
  shows "spec I L (say msg)"
  unfolding say_def say_w_def by (rule spec_assign) (use assms in auto)

subsection \<open>Two robust properties\<close>

lemma deliver1_ctx:
  assumes "deliver1 rt a w = Running w'"
  shows "camera (ctx w') = camera (ctx w)" "render (ctx w') = render (ctx w)"
    "null_sink (ctx w') = null_sink (ctx w)"
  using deliver1_Running[OF assms] by (simp_all add: quiet_def)

lemma robust_handles: "robust rt (handles cam ren snk)"
  unfolding robust_def handles_def by (auto dest: deliver1_ctx)

lemma event_handler_camera_ready:
  assumes "event_handler rt h ev n1 n2 w = Running w'" and "camera_ready (ctx w') \<noteq> camera_ready (ctx w)"
  shows "is_camera_ready_event (OMX_IndexParamCameraDeviceNumber rt) (Async (Event h ev n1 n2))"
  using assms
  by (cases ev) (auto simp: event_handler_def dump_event_def Let_def split: if_splits)

lemma robust_camera_ready_logged:
  "robust rt (camera_ready_logged (OMX_IndexParamCameraDeviceNumber rt))"
  unfolding robust_def
proof (intro conjI allI impI)
  fix w :: "'a world" and s e
  assume "camera_ready_logged (OMX_IndexParamCameraDeviceNumber rt) w"
  then show "camera_ready_logged (OMX_IndexParamCameraDeviceNumber rt)
               (w\<lparr>rts := s, trace := trace w @ [e]\<rparr>)"
    by (auto simp: camera_ready_logged_def)
next
  fix a and w w' :: "'a world"
  assume I: "camera_ready_logged (OMX_IndexParamCameraDeviceNumber rt) w"
    and d: "deliver1 rt a w = Running w'"
  from deliver1_Running[OF d] have t: "trace w' = trace w @ [Async a]" by simp
  show "camera_ready_logged (OMX_IndexParamCameraDeviceNumber rt) w'"
  proof (cases "camera_ready (ctx w') = camera_ready (ctx w)")
    case True
    with I t show ?thesis by (auto simp: camera_ready_logged_def)
  next
    case False
    with d obtain h ev n1 n2 where a: "a = Event h ev n1 n2"
      and e: "event_handler rt h ev n1 n2 (w\<lparr>trace := trace w @ [Async a]\<rparr>) = Running w'"
      by (cases a) (auto simp: deliver1_def Let_def signal_handler_def split: if_splits)
    from event_handler_camera_ready[OF e] False
    have "is_camera_ready_event (OMX_IndexParamCameraDeviceNumber rt) (Async a)"
      by (simp add: a)
    with t show ?thesis by (auto simp: camera_ready_logged_def)
  qed
qed

section \<open>The startup order\<close>

lemma omx_calls_append [simp]: "omx_calls (xs @ ys) = omx_calls xs @ omx_calls ys"
  by (simp add: omx_calls_def)

lemma omx_calls_Nil [simp]: "omx_calls [] = []"
  by (simp add: omx_calls_def)

lemma omx_calls_Cons: "omx_calls (e # es) = (if is_omx e then e # omx_calls es else omx_calls es)"
  by (simp add: omx_calls_def)

lemma omx_calls_Async [simp]: "omx_calls (map Async evs) = []"
  by (induction evs) (simp_all add: omx_calls_def)

lemma accepts_append: "accepts xs s \<Longrightarrow> accepts ys t \<Longrightarrow> accepts (xs @ ys) (s @ t)"
  by (induction xs s rule: accepts.induct) (auto split: if_splits)

lemma spec_accepts_one:
  assumes "spec I (\<lambda>seg. accepts [x] (omx_calls seg)) a"
    and "spec I (\<lambda>seg. accepts xs (omx_calls seg)) (run_steps as)"
  shows "spec I (\<lambda>seg. accepts (x # xs) (omx_calls seg)) (run_steps (a # as))"
proof (rule spec_run_steps_Cons[OF assms])
  fix s1 s2 assume "accepts [x] (omx_calls s1)" "accepts xs (omx_calls s2)"
  from accepts_append[OF this] show "accepts (x # xs) (omx_calls (s1 @ s2))" by simp
qed

lemma spec_accepts_none:
  assumes "spec I (\<lambda>seg. accepts [] (omx_calls seg)) a"
    and "spec I (\<lambda>seg. accepts xs (omx_calls seg)) (run_steps as)"
  shows "spec I (\<lambda>seg. accepts xs (omx_calls seg)) (run_steps (a # as))"
proof (rule spec_run_steps_Cons[OF assms])
  fix s1 s2 assume "accepts [] (omx_calls s1)" "accepts xs (omx_calls s2)"
  from accepts_append[OF this] show "accepts xs (omx_calls (s1 @ s2))" by simp
qed

lemma spec_accepts_Nil: "spec I (\<lambda>seg. accepts [] (omx_calls seg)) (run_steps [])"
  by (rule spec_run_steps_Nil) simp

lemma handles_err_out [simp]: "handles cam ren snk (w\<lparr>err_out := x\<rparr>) = handles cam ren snk w"
  by (simp add: handles_def)

lemma say_accepts: "spec (handles cam ren snk) (\<lambda>seg. accepts [] (omx_calls seg)) (say msg)"
  by (rule spec_say) simp_all

lemma usleep_silent:
  "robust rt I \<Longrightarrow> spec I (\<lambda>seg. omx_calls seg = []) (call_ignored rt (usleep n))"
  by (rule spec_call_ignored) (simp_all add: omx_calls_Cons)

lemma block_until_state_changed_accepts:
  assumes rb: "robust rt I"
  shows "spec I (\<lambda>seg. accepts [StateWait h s] (omx_calls seg)) (block_until_state_changed rt fuel h s)"
proof (induction fuel)
  case 0
  show ?case by (rule specI) simp
next
  case (Suc n)
  have e: "block_until_state_changed rt (Suc n) h s =
     perform rt (rt_get_state rt h) (GetState h)
       (\<lambda>(r, eState).
          if eState \<noteq> s
          then seq (call_ignored rt (usleep 10000)) (\<lambda>w'. block_until_state_changed rt n h s w')
          else Running)"
    by (rule ext) simp
  show ?case
    unfolding e
  proof (rule spec_perform[OF rb, where Lk = "\<lambda>x seg. if snd x = s then omx_calls seg = []
                                                 else accepts [StateWait h s] (omx_calls seg)"])
    fix x :: "OMX_ERRORTYPE \<times> OMX_STATETYPE"
    obtain r e where x: "x = (r, e)" by (cases x)
    show "spec I (\<lambda>seg. if snd x = s then omx_calls seg = [] else accepts [StateWait h s] (omx_calls seg))
           (case x of (r, eState) \<Rightarrow>
              if eState \<noteq> s
              then seq (call_ignored rt (usleep 10000)) (\<lambda>w'. block_until_state_changed rt n h s w')
              else Running)"
    proof (cases "e = s")
      case True
      then show ?thesis unfolding x by (simp add: spec_Running)
    next
      case False
      have "spec I (\<lambda>seg. accepts [StateWait h s] (omx_calls seg))
              (seq (call_ignored rt (usleep 10000)) (block_until_state_changed rt n h s))"
        by (rule spec_seq[OF usleep_silent[OF rb] Suc.IH]) simp
      with False show ?thesis unfolding x by simp
    qed
  next
    fix x :: "OMX_ERRORTYPE \<times> OMX_STATETYPE" and evs seg
    assume "if snd x = s then omx_calls seg = [] else accepts [StateWait h s] (omx_calls seg)"
    then show "accepts [StateWait h s] (omx_calls (GetState h x # map Async evs @ seg))"
      by (cases x) (auto simp: omx_calls_Cons split: if_splits)
  qed
qed

lemma block_until_port_changed_accepts:
  assumes rb: "robust rt I"
  shows "spec I (\<lambda>seg. accepts [PortWait h p b] (omx_calls seg)) (block_until_port_changed rt fuel h p b)"
proof (induction fuel)
  case 0
  show ?case by (rule specI) simp
next
  case (Suc n)
  have e: "block_until_port_changed rt (Suc n) h p b =
     perform rt (rt_get_portdef rt h p) (GetPortDef h p)
       (\<lambda>(r, portdef).
          if r \<noteq> OMX_ErrorNone then omx_die r ''Failed to get port definition''
          else if bEnabled portdef \<noteq> b
          then seq (call_ignored rt (usleep 10000)) (\<lambda>w'. block_until_port_changed rt n h p b w')
          else Running)"
    by (rule ext) simp
  show ?case
    unfolding e
  proof (rule spec_perform[OF rb, where Lk = "\<lambda>x seg. fst x = OMX_ErrorNone \<and>
            (if bEnabled (snd x) = b then omx_calls seg = []
             else accepts [PortWait h p b] (omx_calls seg))"])
    fix x :: "OMX_ERRORTYPE \<times> OMX_PARAM_PORTDEFINITIONTYPE"
    obtain r d where x: "x = (r, d)" by (cases x)
    have loop: "spec I (\<lambda>seg. accepts [PortWait h p b] (omx_calls seg))
              (seq (call_ignored rt (usleep 10000)) (block_until_port_changed rt n h p b))"
      by (rule spec_seq[OF usleep_silent[OF rb] Suc.IH]) simp
    show "spec I (\<lambda>seg. fst x = OMX_ErrorNone \<and>
            (if bEnabled (snd x) = b then omx_calls seg = []
             else accepts [PortWait h p b] (omx_calls seg)))
           (case x of (r, portdef) \<Rightarrow>
              if r \<noteq> OMX_ErrorNone then omx_die r ''Failed to get port definition''
              else if bEnabled portdef \<noteq> b
              then seq (call_ignored rt (usleep 10000)) (\<lambda>w'. block_until_port_changed rt n h p b w')
              else Running)"
      unfolding x using loop by (auto simp: spec_Running)
  next
    fix x :: "OMX_ERRORTYPE \<times> OMX_PARAM_PORTDEFINITIONTYPE" and evs seg
    assume "fst x = OMX_ErrorNone \<and>
            (if bEnabled (snd x) = b then omx_calls seg = []
             else accepts [PortWait h p b] (omx_calls seg))"
    then show "accepts [PortWait h p b] (omx_calls (GetPortDef h p x # map Async evs @ seg))"
      by (cases x) (auto simp: omx_calls_Cons split: if_splits)
  qed
qed

lemma handle_of_handles:
  "handles cam ren snk w \<Longrightarrow>
     handle_of cpt (ctx w) = (case cpt of Camera \<Rightarrow> cam | Render \<Rightarrow> ren | Null_sink \<Rightarrow> snk)"
  by (cases cpt) (simp_all add: handles_def)

lemma send_command_accepts:
  "spec (handles cam ren snk)
     (\<lambda>seg. accepts [Cmd (OMX_SendCommand (case cpt of Camera \<Rightarrow> cam | Render \<Rightarrow> ren | Null_sink \<Rightarrow> snk) cmd)]
            (omx_calls seg))
     (send_command rt cpt cmd msg)"
  unfolding send_command_def
  by (rule spec_reading, rule spec_omx_or_die[OF robust_handles])
     (simp add: handle_of_handles omx_calls_Cons OMX_ErrorNone_def)

lemma state_changed_accepts:
  "spec (handles cam ren snk)
     (\<lambda>seg. accepts [StateWait (case cpt of Camera \<Rightarrow> cam | Render \<Rightarrow> ren | Null_sink \<Rightarrow> snk) s]
            (omx_calls seg))
     (state_changed rt fuel cpt s)"
  unfolding state_changed_def
  by (rule spec_reading)
     (simp add: handle_of_handles block_until_state_changed_accepts[OF robust_handles])

lemma port_changed_accepts:
  "spec (handles cam ren snk)
     (\<lambda>seg. accepts [PortWait (case cpt of Camera \<Rightarrow> cam | Render \<Rightarrow> ren | Null_sink \<Rightarrow> snk) p b]
            (omx_calls seg))
     (port_changed rt fuel cpt p b)"
  unfolding port_changed_def
  by (rule spec_reading)
     (simp add: handle_of_handles block_until_port_changed_accepts[OF robust_handles])

lemmas command_accepts =
  send_command_accepts[where cpt = Camera, simplified]
  send_command_accepts[where cpt = Render, simplified]
  send_command_accepts[where cpt = Null_sink, simplified]
  state_changed_accepts[where cpt = Camera, simplified]
  state_changed_accepts[where cpt = Render, simplified]
  state_changed_accepts[where cpt = Null_sink, simplified]
  port_changed_accepts[where cpt = Camera, simplified]
  port_changed_accepts[where cpt = Render, simplified]
  port_changed_accepts[where cpt = Null_sink, simplified]

lemma get_camera_portdef_accepts:
  "spec (handles cam ren snk) (\<lambda>seg. accepts [Fetch cam p] (omx_calls seg))
     (get_camera_portdef rt p msg)"
  unfolding get_camera_portdef_def
proof (rule spec_reading, rule spec_perform[OF robust_handles,
         where Lk = "\<lambda>x seg. fst x = OMX_ErrorNone \<and> seg = []"])
  fix w :: "'a world" and x :: "OMX_ERRORTYPE \<times> OMX_PARAM_PORTDEFINITIONTYPE"
  show "spec (handles cam ren snk) (\<lambda>seg. fst x = OMX_ErrorNone \<and> seg = [])
          (case x of (r, portdef) \<Rightarrow>
             seq (assign (\<lambda>w. w\<lparr>camera_portdef := portdef\<rparr>))
                 (if r \<noteq> OMX_ErrorNone then omx_die r msg else Running))"
    by (cases x, rule specI) (auto simp: seq_Running assign_Running handles_def split: if_splits)
next
  fix w :: "'a world" and x :: "OMX_ERRORTYPE \<times> OMX_PARAM_PORTDEFINITIONTYPE"
    and evs :: "async list" and seg :: "entry list"
  assume "handles cam ren snk w" "fst x = OMX_ErrorNone \<and> seg = []"
  then show "accepts [Fetch cam p] (omx_calls (GetPortDef (camera (ctx w)) p x # map Async evs @ seg))"
    by (cases x) (auto simp: omx_calls_Cons handles_def)
qed

lemma allocate_accepts:
  "spec (handles cam ren snk) (\<lambda>seg. accepts [Alloc cam 73] (omx_calls seg))
     (reading (\<lambda>w. perform rt (rt_allocate_buffer rt (camera (ctx w)) 73 (nBufferSize (camera_portdef w)))
              (AllocateBuffer (camera (ctx w)) 73 (nBufferSize (camera_portdef w)))
              (\<lambda>(r, buffer).
                 seq (assign (\<lambda>w. w\<lparr>ctx := (ctx w)\<lparr>camera_ppBuffer_in := buffer\<rparr>\<rparr>))
                     (if r \<noteq> OMX_ErrorNone
                      then omx_die r ''Failed to allocate buffer for camera input port 73''
                      else Running))))"
proof (rule spec_reading, rule spec_perform[OF robust_handles,
         where Lk = "\<lambda>x seg. fst x = OMX_ErrorNone \<and> seg = []"])
  fix w :: "'a world" and x :: "OMX_ERRORTYPE \<times> u32"
  show "spec (handles cam ren snk) (\<lambda>seg. fst x = OMX_ErrorNone \<and> seg = [])
          (case x of (r, buffer) \<Rightarrow>
             seq (assign (\<lambda>w. w\<lparr>ctx := (ctx w)\<lparr>camera_ppBuffer_in := buffer\<rparr>\<rparr>))
                     (if r \<noteq> OMX_ErrorNone
                      then omx_die r ''Failed to allocate buffer for camera input port 73''
                      else Running))"
    by (cases x, rule specI) (auto simp: seq_Running assign_Running handles_def split: if_splits)
next
  fix w :: "'a world" and x :: "OMX_ERRORTYPE \<times> u32"
    and evs :: "async list" and seg :: "entry list"
  assume "handles cam ren snk w" "fst x = OMX_ErrorNone \<and> seg = []"
  then show "accepts [Alloc cam 73] (omx_calls (AllocateBuffer (camera (ctx w)) 73
               (nBufferSize (camera_portdef w)) x # map Async evs @ seg))"
    by (cases x) (auto simp: omx_calls_Cons handles_def)
qed

lemma capture_accepts:
  "spec (handles cam ren snk)
     (\<lambda>seg. accepts [Cmd (OMX_SetParameter cam (IndexConfigPortCapturing 71 b))] (omx_calls seg))
     (reading (\<lambda>w. omx_or_die rt (OMX_SetParameter (camera (ctx w)) (IndexConfigPortCapturing 71 b)) msg))"
  by (rule spec_reading, rule spec_omx_or_die[OF robust_handles])
     (simp add: handles_def omx_calls_Cons OMX_ErrorNone_def)

lemma main_startup_accepts:
  "spec (handles cam ren snk) (\<lambda>seg. accepts (startup_sequence cam ren snk) (omx_calls seg))
     (run_steps (main_startup rt fuel))"
  unfolding main_startup_def startup_sequence_def
  by (rule spec_accepts_none, rule say_accepts
      | rule spec_accepts_one, rule command_accepts
      | rule spec_accepts_one, rule get_camera_portdef_accepts
      | rule spec_accepts_one, rule allocate_accepts
      | rule spec_accepts_one, rule capture_accepts
      | rule spec_accepts_Nil)+

section \<open>What comes before the startup\<close>

lemma flag_basedD:
  "flag_based I \<Longrightarrow> I w \<Longrightarrow> trace w' = trace w \<Longrightarrow> camera_ready (ctx w') = camera_ready (ctx w) \<Longrightarrow> I w'"
  unfolding flag_based_def by blast

lemma flag_based_camera_ready_logged: "flag_based (camera_ready_logged idx)"
  by (simp add: flag_based_def camera_ready_logged_def)

lemma flag_based_True: "flag_based (\<lambda>w. True)"
  by (simp add: flag_based_def)

lemma robust_True: "robust rt (\<lambda>w. True)"
  by (simp add: robust_def)

lemma specQ_assign:
  assumes "flag_based I" and "\<And>w. trace (f w) = trace w"
    and "\<And>w. camera_ready (ctx (f w)) = camera_ready (ctx w)"
  shows "spec I (list_all Q) (assign f)"
  by (rule spec_assign) (use assms in \<open>auto intro: flag_basedD\<close>)

lemma specQ_Running [simp]: "spec I (list_all Q) Running"
  by (rule spec_Running) simp

lemma specQ_say: "flag_based I \<Longrightarrow> spec I (list_all Q) (say msg)"
  unfolding say_def say_w_def by (rule specQ_assign) simp_all

lemma specQ_put_out: "flag_based I \<Longrightarrow> spec I (list_all Q) (put_out x)"
  unfolding put_out_def by (rule specQ_assign) simp_all

lemma specQ_seq: "spec I (list_all Q) a \<Longrightarrow> spec I (list_all Q) b \<Longrightarrow> spec I (list_all Q) (seq a b)"
  by (rule spec_seq[where ?L1.0 = "list_all Q" and ?L2.0 = "list_all Q"]) auto

lemma specQ_perform:
  assumes "robust rt I" and "\<And>x. Q (log x)" and "\<And>a. Q (Async a)"
    and "\<And>x. spec I (list_all Q) (k x)"
  shows "spec I (list_all Q) (perform rt act log k)"
  by (rule spec_perform[OF assms(1), where Lk = "\<lambda>x. list_all Q"])
     (use assms in \<open>auto simp: list_all_iff\<close>)

lemma specQ_do_call:
  assumes "robust rt I" and "\<And>r. Q (Call c r)" and "\<And>a. Q (Async a)"
    and "\<And>r. spec I (list_all Q) (k r)"
  shows "spec I (list_all Q) (do_call rt c k)"
  unfolding do_call_def by (rule specQ_perform) (use assms in auto)

lemma specQ_omx_or_die:
  assumes "robust rt I" and "\<And>r. Q (Call c r)" and "\<And>a. Q (Async a)"
  shows "spec I (list_all Q) (omx_or_die rt c msg)"
  unfolding omx_or_die_def by (rule specQ_do_call) (use assms in \<open>auto intro: spec_Running\<close>)

lemma specQ_call_ignored:
  assumes "robust rt I" and "\<And>r. Q (Call c r)" and "\<And>a. Q (Async a)"
  shows "spec I (list_all Q) (call_ignored rt c)"
  unfolding call_ignored_def by (rule specQ_do_call) (use assms in \<open>auto intro: spec_Running\<close>)

lemma specQ_dump_port:
  assumes rb: "robust rt I" and fb: "flag_based I" and "\<And>r. Q (GetPortDef h p r)"
    and as: "\<And>a. Q (Async a)" and ca: "\<And>n m r. Q (Call (calloc n m) r)"
  shows "spec I (list_all Q) (dump_port rt h p)"
proof -
  have c: "spec I (list_all Q) (dump_color_format rt c)" for c
    unfolding dump_color_format_def
    by (auto intro!: specQ_do_call rb as ca intro: spec_Running)
  have d: "spec I (list_all Q) (dump_portdef rt d)" for d
    unfolding dump_portdef_def
    by (cases "eDomain d") (auto intro!: specQ_seq c specQ_put_out fb intro: spec_Running)
  show ?thesis
    unfolding dump_port_def by (rule specQ_perform) (auto intro: assms d)
qed

lemma specQ_block_until_port_changed:
  assumes rb: "robust rt I" and q: "\<And>r. Q (GetPortDef h p r)" and as: "\<And>a. Q (Async a)"
    and us: "\<And>n r. Q (Call (usleep n) r)"
  shows "spec I (list_all Q) (block_until_port_changed rt fuel h p b)"
proof (induction fuel)
  case 0
  show ?case by (rule specI) simp
next
  case (Suc n)
  have e: "block_until_port_changed rt (Suc n) h p b =
     perform rt (rt_get_portdef rt h p) (GetPortDef h p)
       (\<lambda>(r, portdef).
          if r \<noteq> OMX_ErrorNone then omx_die r ''Failed to get port definition''
          else if bEnabled portdef \<noteq> b
          then seq (call_ignored rt (usleep 10000)) (block_until_port_changed rt n h p b)
          else Running)"
    by (rule ext) simp
  have loop: "spec I (list_all Q) (seq (call_ignored rt (usleep 10000)) (block_until_port_changed rt n h p b))"
    by (rule specQ_seq[OF specQ_call_ignored[OF rb us as] Suc.IH])
  show ?case
    unfolding e by (rule specQ_perform[OF rb q as]) (auto intro: loop spec_Running)
qed

lemma specQ_wait_camera_ready:
  assumes rb: "robust rt I" and as: "\<And>a. Q (Async a)" and us: "\<And>n r. Q (Call (usleep n) r)"
  shows "spec I (list_all Q) (wait_camera_ready rt fuel)"
proof (induction fuel)
  case 0
  show ?case by (rule specI) (auto split: if_splits)
next
  case (Suc n)
  show ?case
  proof (rule specI)
    fix w w' assume I: "I w" and r: "wait_camera_ready rt (Suc n) w = Running w'"
    show "I w' \<and> (\<exists>seg. trace w' = trace w @ seg \<and> list_all Q seg)"
    proof (cases "camera_ready (ctx w) = 0")
      case True
      with r have "seq (call_ignored rt (usleep 10000)) (wait_camera_ready rt n) w = Running w'"
        by simp
      with specD[OF specQ_seq[OF specQ_call_ignored[OF rb us as] Suc.IH] I] show ?thesis
        by blast
    next
      case False
      with r I show ?thesis by auto
    qed
  qed
qed

lemma wait_camera_ready_Running:
  "wait_camera_ready rt fuel w = Running w' \<Longrightarrow> camera_ready (ctx w') \<noteq> 0"
proof (induction fuel arbitrary: w)
  case 0
  then show ?case by (auto split: if_splits)
next
  case (Suc n)
  then show ?case
    by (cases "camera_ready (ctx w) = 0") (auto simp: seq_Running)
qed

lemma specQ_disable_port:
  assumes rb: "robust rt I" and fb: "flag_based I" and as: "\<And>a. Q (Async a)"
    and us: "\<And>n r. Q (Call (usleep n) r)" and q: "\<And>h p r. Q (GetPortDef h p r)"
    and d: "\<And>h p r. Q (Call (OMX_SendCommand h (OMX_CommandPortDisable p)) r)"
  shows "spec I (list_all Q) (disable_port rt fuel h fullname p)"
  unfolding disable_port_def
  by (rule spec_run_steps_all)
     (simp add: specQ_say[OF fb] specQ_omx_or_die[OF rb d as]
        specQ_block_until_port_changed[OF rb q as us])

lemma unat_succ_less:
  fixes p bound :: u32
  assumes "p < bound"
  shows "unat (p + 1) = unat p + 1" and "unat bound - unat (p + 1) < unat bound - unat p"
proof -
  show 1: "unat (p + 1) = unat p + 1"
    using assms by (metis (no_types, lifting) add.commute add_0 inc_i inc_le
        unat_plus_simple unsigned_0 unsigned_1 word_gt_0)
  from assms have "unat p < unat bound"
    by (simp add: word_less_nat_alt)
  with 1 show "unat bound - unat (p + 1) < unat bound - unat p"
    by simp
qed

lemma disable_ports_unfold:
  "disable_ports rt fuel h fullname p bound =
     (if p < bound
      then seq (disable_port rt fuel h fullname p) (disable_ports rt fuel h fullname (p + 1) bound)
      else Running)"
  by (rule ext, subst disable_ports.simps) (simp add: seq_def)

lemma specQ_disable_ports:
  assumes rb: "robust rt I" and fb: "flag_based I" and as: "\<And>a. Q (Async a)"
    and us: "\<And>n r. Q (Call (usleep n) r)" and q: "\<And>h p r. Q (GetPortDef h p r)"
    and d: "\<And>h p r. Q (Call (OMX_SendCommand h (OMX_CommandPortDisable p)) r)"
  shows "spec I (list_all Q) (disable_ports rt fuel h fullname p bound)"
proof (induction "unat bound - unat p" arbitrary: p rule: less_induct)
  case less
  show ?case
  proof (cases "p < bound")
    case True
    have "spec I (list_all Q) (disable_ports rt fuel h fullname (p + 1) bound)"
      by (rule less) (rule unat_succ_less(2)[OF True])
    with specQ_disable_port[OF rb fb as us q d, of fuel h fullname p] True show ?thesis
      by (subst disable_ports_unfold) (simp add: specQ_seq)
  next
    case False
    then show ?thesis
      by (subst disable_ports_unfold) simp
  qed
qed

lemma specQ_probe_types:
  assumes rb: "robust rt I" and fb: "flag_based I" and as: "\<And>a. Q (Async a)"
    and us: "\<And>n r. Q (Call (usleep n) r)" and q: "\<And>h p r. Q (GetPortDef h p r)"
    and d: "\<And>h p r. Q (Call (OMX_SendCommand h (OMX_CommandPortDisable p)) r)"
    and g: "\<And>h t r. Q (GetPorts h t r)"
  shows "spec I (list_all Q) (probe_types rt fuel h fullname ts)"
proof (induction ts)
  case Nil
  show ?case by (rule specI) auto
next
  case (Cons t ts)
  have e: "probe_types rt fuel h fullname (t # ts) =
     perform rt (rt_get_ports rt h t) (GetPorts h t)
       (\<lambda>(r, ports).
          seq (if r = OMX_ErrorNone
               then disable_ports rt fuel h fullname (nStartPortNumber ports)
                      (nStartPortNumber ports + nPorts ports)
               else Running)
              (probe_types rt fuel h fullname ts))"
    by (rule ext) simp
  show ?case
    unfolding e
    by (rule specQ_perform[OF rb g as])
       (auto intro!: specQ_seq Cons.IH specQ_disable_ports[OF rb fb as us q d] intro: spec_Running)
qed

lemma specQ_init_component_handle:
  assumes rb: "robust rt I" and fb: "flag_based I" and as: "\<And>a. Q (Async a)"
    and us: "\<And>n r. Q (Call (usleep n) r)" and q: "\<And>h p r. Q (GetPortDef h p r)"
    and d: "\<And>h p r. Q (Call (OMX_SendCommand h (OMX_CommandPortDisable p)) r)"
    and g: "\<And>h t r. Q (GetPorts h t r)" and gh: "\<And>n cb r. Q (GetHandle n cb r)"
    and put: "\<And>h c. camera_ready (put h c) = camera_ready c"
  shows "spec I (list_all Q) (init_component_handle rt fuel name put)"
proof (rule specI)
  fix w w' assume I: "I w" and r: "init_component_handle rt fuel name put w = Running w'"
  let ?fullname = "component_fullname name"
  have s: "spec I (list_all Q)
     (seq (say (''Initializing component '' @ ?fullname))
          (perform rt (rt_get_handle rt ?fullname (callbacks w)) (GetHandle ?fullname (callbacks w))
            (\<lambda>(r, h).
               seq (assign (\<lambda>w. w\<lparr>ctx := put h (ctx w)\<rparr>))
                 (if r \<noteq> OMX_ErrorNone
                  then omx_die r (''Failed to get handle for component '' @ ?fullname)
                  else seq (perform rt (rt_get_ports rt h OMX_IndexParamVideoInit)
                              (GetPorts h OMX_IndexParamVideoInit) (\<lambda>_. Running))
                           (probe_types rt fuel h ?fullname types)))))"
    by (intro specQ_seq specQ_say[OF fb] specQ_perform[OF rb gh as])
       (auto intro!: specQ_seq specQ_assign[OF fb] specQ_perform[OF rb g as]
          specQ_probe_types[OF rb fb as us q d g] simp: put intro: spec_Running)
  from r have "seq (say (''Initializing component '' @ ?fullname))
          (perform rt (rt_get_handle rt ?fullname (callbacks w)) (GetHandle ?fullname (callbacks w))
            (\<lambda>(r, h).
               seq (assign (\<lambda>w. w\<lparr>ctx := put h (ctx w)\<rparr>))
                 (if r \<noteq> OMX_ErrorNone
                  then omx_die r (''Failed to get handle for component '' @ ?fullname)
                  else seq (perform rt (rt_get_ports rt h OMX_IndexParamVideoInit)
                              (GetPorts h OMX_IndexParamVideoInit) (\<lambda>_. Running))
                           (probe_types rt fuel h ?fullname types)))) w = Running w'"
    by (simp add: init_component_handle_def Let_def)
  from specD[OF s I this] show "I w' \<and> (\<exists>seg. trace w' = trace w @ seg \<and> list_all Q seg)" .
qed

lemma specQ_get_camera_portdef:
  assumes rb: "robust rt I" and fb: "flag_based I" and as: "\<And>a. Q (Async a)"
    and q: "\<And>h p r. Q (GetPortDef h p r)"
  shows "spec I (list_all Q) (get_camera_portdef rt p msg)"
  unfolding get_camera_portdef_def
  by (rule spec_reading, rule specQ_perform[OF rb q as])
     (auto intro!: specQ_seq specQ_assign[OF fb] intro: spec_Running)

lemma specQ_set_camera_portdef:
  assumes rb: "robust rt I" and as: "\<And>a. Q (Async a)"
    and q: "\<And>h d r. Q (Call (OMX_SetParameter h (IndexParamPortDefinition d)) r)"
  shows "spec I (list_all Q) (set_camera_portdef rt msg)"
  unfolding set_camera_portdef_def
  by (rule spec_reading, rule specQ_omx_or_die[OF rb q as])

text \<open>The entries of the log that are no startup command.\<close>

lemma not_startup [simp]:
  "\<not> is_startup_command (Async a)"
  "\<not> is_startup_command (Call (usleep n) r)"
  "\<not> is_startup_command (Call (calloc n m) r)"
  "\<not> is_startup_command (GetPortDef h p x)"
  "\<not> is_startup_command (GetPorts h t y)"
  "\<not> is_startup_command (GetHandle nm cb z)"
  "\<not> is_startup_command (GetState h v)"
  "\<not> is_startup_command (DisplaySize dv u)"
  "\<not> is_startup_command (Call (OMX_SendCommand h (OMX_CommandPortDisable p)) r)"
  "\<not> is_startup_command (Call (OMX_SetConfig h st) r)"
  "\<not> is_startup_command (Call (OMX_SetupTunnel h p h' p') r)"
  "\<not> is_startup_command (Call bcm_host_init r)"
  "\<not> is_startup_command (Call OMX_Init r)"
  "\<not> is_startup_command (Call vcos_semaphore_create r)"
  "\<not> is_startup_command (Call (OMX_SetParameter h (IndexParamCameraDeviceNumber p n')) r)"
  "\<not> is_startup_command (Call (OMX_SetParameter h (IndexParamPortDefinition pd)) r)"
  by simp_all

lemma before_open:
  "spec (camera_ready_logged idx) (list_all (\<lambda>e. \<not> is_startup_command e)) (run_steps (main_init rt ind))"
  if "robust rt (camera_ready_logged idx)"
  unfolding main_init_def
  by (rule spec_run_steps_all)
     (auto intro!: specQ_call_ignored[OF that] specQ_omx_or_die[OF that] specQ_do_call[OF that]
        spec_assign intro: spec_Running simp: camera_ready_logged_def zero_ctx_def)

lemma open_components_quiet:
  assumes rb: "robust rt I" and fb: "flag_based I"
  shows "spec I (list_all (\<lambda>e. \<not> is_startup_command e)) (run_steps (main_open_components rt fuel))"
  unfolding main_open_components_def
  by (rule spec_run_steps_all) (auto intro!: specQ_init_component_handle[OF rb fb])

lemma display_size_quiet:
  assumes rb: "robust rt I" and fb: "flag_based I"
  shows "spec I (list_all (\<lambda>e. \<not> is_startup_command e)) (run_steps (main_display_size rt))"
  unfolding main_display_size_def
  by (rule spec_run_steps_all)
     (auto intro!: specQ_perform[OF rb] specQ_assign[OF fb] specQ_seq intro: spec_Running)

lemma camera_setup_quiet:
  assumes rb: "robust rt I" and fb: "flag_based I"
  shows "spec I (list_all (\<lambda>e. \<not> is_startup_command e)) (run_steps (main_camera_setup rt))"
  unfolding main_camera_setup_def
  by (rule spec_run_steps_all)
     (auto intro!: spec_reading specQ_say[OF fb] specQ_dump_port[OF rb fb] specQ_omx_or_die[OF rb])

lemma port_definitions_quiet:
  assumes rb: "robust rt I" and fb: "flag_based I"
  shows "spec I (list_all (\<lambda>e. \<not> is_startup_command e)) (run_steps (main_preview_port rt))"
    "spec I (list_all (\<lambda>e. \<not> is_startup_command e)) (run_steps (main_video_port rt))"
  unfolding main_preview_port_def main_video_port_def
  by (rule spec_run_steps_all,
      auto intro!: specQ_get_camera_portdef[OF rb fb] specQ_set_camera_portdef[OF rb]
        specQ_assign[OF fb])+

lemma tuning_quiet:
  assumes rb: "robust rt I" and fb: "flag_based I"
  shows "spec I (list_all (\<lambda>e. \<not> is_startup_command e)) (run_steps (main_framerate rt))"
    "spec I (list_all (\<lambda>e. \<not> is_startup_command e)) (run_steps (main_camera_tuning rt))"
    "spec I (list_all (\<lambda>e. \<not> is_startup_command e)) (run_steps (main_camera_ready rt fuel))"
    "spec I (list_all (\<lambda>e. \<not> is_startup_command e)) (run_steps (main_render_and_tunnels rt))"
  unfolding main_framerate_def main_camera_tuning_def main_camera_ready_def
    main_render_and_tunnels_def
  by (rule spec_run_steps_all,
      auto intro!: spec_reading specQ_say[OF fb] specQ_dump_port[OF rb fb] specQ_omx_or_die[OF rb]
        specQ_wait_camera_ready[OF rb])+

lemma spec_run_steps_append:
  assumes "spec I (list_all Q) (run_steps as)" and "spec I (list_all Q) (run_steps bs)"
  shows "spec I (list_all Q) (run_steps (as @ bs))"
proof (rule specI)
  fix w w' assume I: "I w" and "run_steps (as @ bs) w = Running w'"
  then obtain w1 where a: "run_steps as w = Running w1" and b: "run_steps bs w1 = Running w'"
    by (auto simp: run_steps_append_Running)
  from specD[OF assms(1) I a] obtain s1 where 1: "I w1" "trace w1 = trace w @ s1" "list_all Q s1"
    by blast
  from specD[OF assms(2) 1(1) b] obtain s2 where "I w'" "trace w' = trace w1 @ s2" "list_all Q s2"
    by blast
  with 1 show "I w' \<and> (\<exists>seg. trace w' = trace w @ seg \<and> list_all Q seg)"
    by auto
qed

lemma before_tunnels:
  assumes rb: "robust rt (camera_ready_logged idx)"
  shows "spec (camera_ready_logged idx) (list_all (\<lambda>e. \<not> is_startup_command e))
     (run_steps (main_init rt ind @ main_open_components rt fuel @ main_display_size rt
        @ main_camera_setup rt @ main_preview_port rt @ main_video_port rt @ main_framerate rt
        @ main_camera_tuning rt @ main_camera_ready rt fuel))"
  by (intro spec_run_steps_append before_open[OF rb]
        open_components_quiet[OF rb flag_based_camera_ready_logged]
        display_size_quiet[OF rb flag_based_camera_ready_logged]
        camera_setup_quiet[OF rb flag_based_camera_ready_logged]
        port_definitions_quiet[OF rb flag_based_camera_ready_logged]
        tuning_quiet(1,2,3)[OF rb flag_based_camera_ready_logged])

lemma main_camera_ready_Running:
  "run_steps (xs @ main_camera_ready rt fuel) w = Running w' \<Longrightarrow> camera_ready (ctx w') \<noteq> 0"
  by (auto simp: run_steps_append_Running main_camera_ready_def run_steps_Cons_Running
        simp del: run_steps.simps(2) dest: wait_camera_ready_Running)

text \<open>
  C3. In every run of \<open>main\<close> that gets as far as the start of the capture, the log
  splits in two. The first part holds no state command, no port-enable command, no
  allocation and no capture switch, and it holds the callback that sets \<open>camera_ready\<close>.
  The calls of the second part are exactly the startup sequence: the three components
  are commanded to idle in the order camera, render, null sink, each command followed by
  the polls of that component's state up to the one that reports idle; the ports 73, 70,
  71, 90 and 240 are enabled in this order, each command followed by the polls of that
  port up to the one that reports it enabled; the definition of port 73 is fetched and
  its buffer allocated; the three components are commanded to executing, each followed
  by the polls up to the one that reports executing; and the capture switch of port 71
  is the last call.
\<close>

theorem startup_order:
  assumes "run_steps (main_until_capture rt ind fuel) (initial_world ind s) = Running w"
  shows "\<exists>pre post.
           trace w = pre @ post
           \<and> list_all (\<lambda>e. \<not> is_startup_command e) pre
           \<and> list_ex (is_camera_ready_event (OMX_IndexParamCameraDeviceNumber rt)) pre
           \<and> accepts (startup_sequence (camera (ctx w)) (render (ctx w)) (null_sink (ctx w)))
                (omx_calls post)"
proof -
  let ?idx = "OMX_IndexParamCameraDeviceNumber rt"
  let ?J = "camera_ready_logged ?idx"
  let ?Q = "\<lambda>e. \<not> is_startup_command e"
  let ?A = "main_init rt ind @ main_open_components rt fuel @ main_display_size rt
        @ main_camera_setup rt @ main_preview_port rt @ main_video_port rt @ main_framerate rt
        @ main_camera_tuning rt"
  have rb: "robust rt ?J" by (rule robust_camera_ready_logged)
  have split: "main_until_capture rt ind fuel =
      (?A @ main_camera_ready rt fuel) @ main_render_and_tunnels rt @ main_startup rt fuel"
    by (simp add: main_until_capture_def main_until_tunnels_def)
  from assms obtain w1 w2 where
    a: "run_steps (?A @ main_camera_ready rt fuel) (initial_world ind s) = Running w1"
    and b: "run_steps (main_render_and_tunnels rt) w1 = Running w2"
    and c: "run_steps (main_startup rt fuel) w2 = Running w"
    unfolding split by (auto simp: run_steps_append_Running)
  have J0: "?J (initial_world ind s)"
    by (simp add: camera_ready_logged_def initial_world_def zero_ctx_def)
  have "spec ?J (list_all ?Q) (run_steps (?A @ main_camera_ready rt fuel))"
    using before_tunnels[OF rb, of ind fuel] by simp
  from specD[OF this J0 a] obtain s1 where
    1: "?J w1" "trace w1 = s1" "list_all ?Q s1"
    by (auto simp: initial_world_def)
  from main_camera_ready_Running[OF a] 1(1,2) have ev: "list_ex (is_camera_ready_event ?idx) s1"
    by (simp add: camera_ready_logged_def)
  from specD[OF tuning_quiet(4)[OF rb flag_based_camera_ready_logged] 1(1) b] obtain s2 where
    2: "trace w2 = trace w1 @ s2" "list_all ?Q s2"
    by blast
  have h2: "handles (camera (ctx w2)) (render (ctx w2)) (null_sink (ctx w2)) w2"
    by (simp add: handles_def)
  from specD[OF main_startup_accepts h2 c] obtain post where
    3: "handles (camera (ctx w2)) (render (ctx w2)) (null_sink (ctx w2)) w"
      "trace w = trace w2 @ post"
      "accepts (startup_sequence (camera (ctx w2)) (render (ctx w2)) (null_sink (ctx w2))) (omx_calls post)"
    by blast
  from 3(1) have hs: "camera (ctx w2) = camera (ctx w)" "render (ctx w2) = render (ctx w)"
    "null_sink (ctx w2) = null_sink (ctx w)"
    by (simp_all add: handles_def)
  have "trace w = (s1 @ s2) @ post"
    using 1(2) 2(1) 3(2) by simp
  moreover have "list_all ?Q (s1 @ s2)"
    using 1(3) 2(2) by simp
  moreover have "list_ex (is_camera_ready_event ?idx) (s1 @ s2)"
    using ev by simp
  ultimately show ?thesis
    using 3(3) unfolding hs by blast
qed

section \<open>Running the program on the test runtimes\<close>

lemma is_running_eq: "is_running r \<Longrightarrow> r = Running (the_world r)"
  by (cases r) auto

lemma fuel_numeral:
  "block_until_port_changed rt (numeral k) = block_until_port_changed rt (Suc (pred_numeral k))"
  "block_until_state_changed rt (numeral k) = block_until_state_changed rt (Suc (pred_numeral k))"
  "block_until_flushed rt (numeral k) = block_until_flushed rt (Suc (pred_numeral k))"
  "wait_camera_ready rt (numeral k) = wait_camera_ready rt (Suc (pred_numeral k))"
  "wait_want_quit rt (numeral k) = wait_want_quit rt (Suc (pred_numeral k))"
  by (simp_all only: numeral_eq_Suc)

lemma fuel_One:
  "block_until_port_changed rt 1 = block_until_port_changed rt (Suc 0)"
  "block_until_state_changed rt 1 = block_until_state_changed rt (Suc 0)"
  "block_until_flushed rt 1 = block_until_flushed rt (Suc 0)"
  "wait_camera_ready rt 1 = wait_camera_ready rt (Suc 0)"
  "wait_want_quit rt 1 = wait_want_quit rt (Suc 0)"
  by simp_all

lemmas mock_simps = mock_rt_def mock_get_handle_def mock_ports_def mock_lookup_portdef_def
  mock_settle_def mock_default_portdef_def mock_start_def mock_index_camera_device_number_def
  benign_def garbage_def plain_rt_def plain_portdef_def

lemmas prog_simps = perform_def do_call_def call_ignored_def omx_or_die_def seq_def deliver_def
  deliver1_def event_handler_def signal_handler_def dump_event_def say_def say_w_def assign_def
  reading_def put_out_def OMX_ErrorNone_def OMX_CommandFlush_code_def fuel_numeral fuel_One
  initial_world_def zero_ctx_def

lemmas main_simps = main_init_def main_open_components_def main_display_size_def
  main_camera_setup_def main_preview_port_def main_video_port_def main_framerate_def
  main_camera_tuning_def main_camera_ready_def main_render_and_tunnels_def main_startup_def
  main_playback_def main_flush_def main_disable_ports_def main_release_def main_exit_def
  get_camera_portdef_def set_camera_portdef_def send_command_def state_changed_def
  port_changed_def set_signal_def dump_port_def dump_portdef_def dump_color_format_def
  display_region_def half_s16_def preview_format_def image_nFrameWidth_def
  image_eColorFormat_def eMirror_def OMX_COLOR_FormatUnused_def
  OMX_COLOR_FormatYUV420PackedPlanar_def DISPLAY_DEVICE_def
  init_component_handle_def types_def disable_port_def disable_ports.simps

section \<open>Witnesses on the test runtimes\<close>

theorem preview_port_read_modify_write_witness:
  "is_running mock_preview
   \<and> (\<exists>rc W H d pre evs1 evs2.
            trace (the_world mock_preview) = trace (initial_world benign mock_start) @ pre
              @ GetPortDef (camera (ctx (initial_world benign mock_start))) 70 (OMX_ErrorNone, d)
                # map Async evs1
              @ Call (OMX_SetParameter (camera (ctx (initial_world benign mock_start)))
                  (IndexParamPortDefinition
                   (d\<lparr>format := (format d)\<lparr>nFrameWidth := W div 2, nFrameHeight := H div 2,
                         xFramerate := push_bit 16 25, nStride := W div 2\<rparr>\<rparr>)))
                  OMX_ErrorNone # map Async evs2
            \<and> filter is_display_size pre = [DisplaySize DISPLAY_DEVICE (rc, W, H)]
            \<and> sint (W div 2) = uint (W div 2))
   \<and> filter is_display_size (trace (the_world mock_preview)) = [DisplaySize 0 (0, 1920, 1080)]
   \<and> nFrameWidth (format (camera_portdef (the_world mock_preview))) = 960
   \<and> nFrameHeight (format (camera_portdef (the_world mock_preview))) = 540
   \<and> nStride (format (camera_portdef (the_world mock_preview))) = 960"
proof -
  have ev: "is_running mock_preview
     \<and> filter is_display_size (trace (the_world mock_preview)) = [DisplaySize 0 (0, 1920, 1080)]
     \<and> nFrameWidth (format (camera_portdef (the_world mock_preview))) = 960
     \<and> nFrameHeight (format (camera_portdef (the_world mock_preview))) = 540
     \<and> nStride (format (camera_portdef (the_world mock_preview))) = 960"
    unfolding mock_preview_def
    by (simp add: mock_simps prog_simps main_simps Let_def
          fmt_d_def digit_char_def say_text_def c_string_def NUL_def VIDEO_FRAMERATE_def
          OMX_ALL_def CAM_DEVICE_NUMBER_def
        cong: res.case_cong_weak)
  then have "run_steps (main_display_size mock_rt @ main_camera_setup mock_rt @ main_preview_port mock_rt)
       (initial_world benign mock_start) = Running (the_world mock_preview)"
    using is_running_eq[of mock_preview] by (simp add: mock_preview_def)
  from preview_port_read_modify_write[OF this] ev show ?thesis
    by blast
qed


theorem startup_order_witness:
  "is_running plain_startup
   \<and> (\<exists>pre post.
           trace (the_world plain_startup) = pre @ post
           \<and> list_all (\<lambda>e. \<not> is_startup_command e) pre
           \<and> list_ex (is_camera_ready_event (OMX_IndexParamCameraDeviceNumber plain_rt)) pre
           \<and> accepts (startup_sequence (camera (ctx (the_world plain_startup)))
                  (render (ctx (the_world plain_startup))) (null_sink (ctx (the_world plain_startup))))
                (omx_calls post))"
proof -
  have r: "is_running plain_startup"
    unfolding plain_startup_def main_until_capture_def main_until_tunnels_def
    by (simp add: mock_simps prog_simps main_simps program_fullnames Let_def
          fmt_d_def digit_char_def say_text_def c_string_def NUL_def
        cong: res.case_cong_weak)
  then have "run_steps (main_until_capture plain_rt benign 1) (initial_world benign (False, OMX_StateLoaded))
      = Running (the_world plain_startup)"
    using is_running_eq[of plain_startup] by (simp add: plain_startup_def)
  from startup_order[OF this] r show ?thesis
    by blast
qed

end
